theory Spec2Isabelle
  imports Main "HOL-Library.Word"
begin

section \<open>Go library functions used by the source\<close>

text \<open>
  \<open>strings.HasPrefix\<close>, \<open>strings.Split\<close>, \<open>strings.SplitN\<close> with a limit of two,
  \<open>strings.Fields\<close>, and the \<open>strconv\<close> conversions in base ten. The source calls
  \<open>Split\<close> and \<open>SplitN\<close> with non-empty separators only; for an empty separator (where
  Go explodes the string) these definitions return the string unsplit.
\<close>

definition HasPrefix :: "string \<Rightarrow> string \<Rightarrow> bool" where
  "HasPrefix s p = (take (length p) s = p)"

fun Split :: "string \<Rightarrow> string \<Rightarrow> string list" where
  "Split [] sep = [[]]"
| "Split (c # cs) sep =
     (if sep \<noteq> [] \<and> take (length sep) (c # cs) = sep
      then [] # Split (drop (length sep) (c # cs)) sep
      else (case Split cs sep of [] \<Rightarrow> [[c]] | x # xs \<Rightarrow> (c # x) # xs))"

fun SplitN2 :: "string \<Rightarrow> string \<Rightarrow> string list" where
  "SplitN2 [] sep = [[]]"
| "SplitN2 (c # cs) sep =
     (if sep \<noteq> [] \<and> take (length sep) (c # cs) = sep
      then [[], drop (length sep) (c # cs)]
      else (case SplitN2 cs sep of [] \<Rightarrow> [[c]] | x # xs \<Rightarrow> (c # x) # xs))"

text \<open>
  \<open>strings.Fields\<close> splits around runs of white space as \<open>unicode.IsSpace\<close> defines it.
  On the bytes of a string these are the six ASCII characters and the UTF-8 encodings of
  U+0085, U+00A0, U+1680, U+2000 to U+200A, U+2028, U+2029, U+202F, U+205F and U+3000.
  Each of the encodings starts with a lead byte, which no well-formed rune contains in a
  later position, so a byte-wise scan meets them exactly where Go's rune decoder does.
  \<open>spaceLen\<close> is the width in bytes of a white-space rune at the head of the string, or 0.
\<close>

definition isAsciiSpace :: "char \<Rightarrow> bool" where
  "isAsciiSpace c = (c = CHR 0x09 \<or> c = CHR 0x0A \<or> c = CHR 0x0B \<or> c = CHR 0x0C \<or> c = CHR 0x0D
     \<or> c = CHR 0x20)"

definition spaceLen :: "string \<Rightarrow> nat" where
  "spaceLen s =
     (case s of [] \<Rightarrow> 0
      | c # cs \<Rightarrow>
      if isAsciiSpace c then 1
      else if c = CHR 0xC2 \<and> (take 1 cs = [CHR 0x85] \<or> take 1 cs = [CHR 0xA0]) then 2
      else if c = CHR 0xE1 \<and> take 2 cs = [CHR 0x9A, CHR 0x80] then 3
      else if c = CHR 0xE2 \<and> take 1 cs = [CHR 0x80] \<and>
              (case drop 1 cs of [] \<Rightarrow> False
               | b # _ \<Rightarrow> (0x80 \<le> (of_char b :: nat) \<and> (of_char b :: nat) \<le> 0x8A)
                          \<or> b = CHR 0xA8 \<or> b = CHR 0xA9 \<or> b = CHR 0xAF) then 3
      else if c = CHR 0xE2 \<and> take 2 cs = [CHR 0x81, CHR 0x9F] then 3
      else if c = CHR 0xE3 \<and> take 2 cs = [CHR 0x80, CHR 0x80] then 3
      else 0)"

fun FieldsFrom :: "string \<Rightarrow> string \<Rightarrow> string list" where
  "FieldsFrom cur [] = (if cur = [] then [] else [cur])"
| "FieldsFrom cur (c # cs) =
     (if spaceLen (c # cs) = 0 then FieldsFrom (cur @ [c]) cs
      else (if cur = [] then [] else [cur]) @ FieldsFrom [] (drop (spaceLen (c # cs) - 1) cs))"

definition Fields :: "string \<Rightarrow> string list" where
  "Fields s = FieldsFrom [] s"

datatype NumError = ErrSyntax | ErrRange

definition isDigit :: "char \<Rightarrow> bool" where
  "isDigit c = (48 \<le> (of_char c :: nat) \<and> (of_char c :: nat) \<le> 57)"

fun parseDigits :: "nat \<Rightarrow> string \<Rightarrow> nat option" where
  "parseDigits acc [] = Some acc"
| "parseDigits acc (c # cs) =
     (if isDigit c then parseDigits (acc * 10 + (of_char c - 48)) cs else None)"

text \<open>\<open>strconv.ParseUint(s, 10, bitSize)\<close>: digits only, no sign, no underscore.\<close>

definition ParseUint :: "string \<Rightarrow> nat \<Rightarrow> NumError + nat" where
  "ParseUint s bitSize =
     (if s = [] then Inl ErrSyntax
      else case parseDigits 0 s of
             None \<Rightarrow> Inl ErrSyntax
           | Some n \<Rightarrow> if n < 2 ^ bitSize then Inr n else Inl ErrRange)"

text \<open>
  \<open>strconv.Atoi\<close> and \<open>strconv.ParseInt(s, 10, 0)\<close> on a 64-bit platform: an optional
  sign, then digits. Both return a value together with the error: 0 on a syntax error,
  the nearest bound on a range error.
\<close>

definition ParseInt :: "string \<Rightarrow> int \<times> NumError option" where
  "ParseInt s =
     (let neg = (take 1 s = ''-'');
          body = (if take 1 s = ''+'' \<or> take 1 s = ''-'' then drop 1 s else s)
      in if body = [] then (0, Some ErrSyntax)
         else case parseDigits 0 body of
                None \<Rightarrow> (0, Some ErrSyntax)
              | Some n \<Rightarrow>
                  if \<not> neg \<and> n \<ge> 2 ^ 63 then (2 ^ 63 - 1, Some ErrRange)
                  else if neg \<and> n > 2 ^ 63 then (- (2 ^ 63), Some ErrRange)
                  else (if neg then - int n else int n, None))"

definition Atoi :: "string \<Rightarrow> int \<times> NumError option" where
  "Atoi s = ParseInt s"

function showNat :: "nat \<Rightarrow> string" where
  "showNat n = (if n < 10 then [char_of (48 + n)] else showNat (n div 10) @ [char_of (48 + n mod 10)])"
  by pat_completeness auto
termination
  by (relation "measure id") auto

definition FormatInt :: "int \<Rightarrow> string" where
  "FormatInt i = (if i < 0 then CHR ''-'' # showNat (nat (- i)) else showNat (nat i))"

definition FormatUint :: "nat \<Rightarrow> string" where
  "FormatUint n = showNat n"

definition Itoa :: "int \<Rightarrow> string" where
  "Itoa i = FormatInt i"

definition CRLF :: string where
  "CRLF = [CHR 0x0D, CHR 0x0A]"

section \<open>Package sdp: the data model\<close>

text \<open>
  Go strings are byte sequences: \<open>string\<close> (a list of 8-bit characters). A \<open>uint8\<close> is an
  \<open>8 word\<close>, a \<open>uint16\<close> a \<open>16 word\<close>, a Go \<open>int\<close> an \<open>int\<close> (no claim
  reaches the 64-bit bounds except through \<open>strconv\<close>, which is modelled with them).
  A nil pointer is \<open>None\<close>, a nil slice or a nil chain is \<open>[]\<close>.
\<close>

record Origin =
  Origin_User :: string
  Origin_ID :: string
  Origin_Version :: string
  Origin_Addr :: string

record Codec =
  Codec_PT :: "8 word"
  Codec_Name :: string
  Codec_Rate :: int
  Codec_Param :: string
  Codec_Fmtp :: string
  Codec_valid :: bool

record Media =
  Media_Type :: string
  Media_Proto :: string
  Media_Port :: "16 word"
  Media_NumPorts :: int
  Media_Addr :: string
  Media_Direction :: string
  Media_Codecs :: "Codec list"
  Media_Ptime :: int
  Media_Maxptime :: int
  Media_Attrs :: "(string \<times> string) list"
  Media_Other :: "(string \<times> string) list"

record SDP =
  SDP_Origin :: "Origin option"
  SDP_Addr :: string
  SDP_Media :: "Media list"
  SDP_Session :: string
  SDP_Time :: string
  SDP_Direction :: string
  SDP_Attrs :: "(string \<times> string) list"
  SDP_Other :: "(string \<times> string) list"

section \<open>Package sdp: parsing\<close>

text \<open>
  One constructor for each error the parser builds; the wrapping constructors follow
  the \<open>%w: %w\<close> wrapping of the source. A Go run-time panic (an index out of range on
  \<open>lineParts[1]\<close> or \<open>tokens[1]\<close>) is the value \<open>RuntimePanic\<close>, which no caller converts
  into a warning.
\<close>

datatype SdpError =
    MustStartWithV0
  | TooFewLines
  | InvalidLine string
  | NotEnoughTokens nat
  | UnsupportedMediaType string
  | InvalidPort string
  | InvalidPortRange string
  | UnsupportedMediaProtocol string
  | InvalidPT string
  | UnknownIanaCodec "8 word"
  | ExtraConnLine string
  | InvalidConnLine
  | UnsupportedConnNetType
  | MulticastConn
  | OriginAfterMedia string
  | ExtraOriginLine string
  | InvalidOriginLine
  | UnsupportedOriginNetType
  | MulticastOrigin
  | InvalidPtime string
  | InvalidMaxptime string
  | InvalidRtpmap string
  | InvalidRtpmapRate string
  | InvalidRtpmapLine bool string
  | InvalidFmtpLine bool string
  | InvalidPTInRtpmap string
  | CodecNotFound string
  | ExtraDirection bool string
  | InvalidAttribute string
  | InvalidProperty string
  | MediaLineError SdpError string
  | SessionAttrError SdpError string
  | MediaAttrError SdpError string
  | SessionOtherError SdpError string
  | MediaOtherError SdpError string
  | MissingMandatory
  | NoMediaDescriptions
  | MissingRtpmap "8 word"
  | RuntimePanic

fun mapErr :: "('a \<Rightarrow> 'e + 'b) \<Rightarrow> 'a list \<Rightarrow> 'e + 'b list" where
  "mapErr f [] = Inr []"
| "mapErr f (x # xs) =
     (case f x of
        Inl e \<Rightarrow> Inl e
      | Inr y \<Rightarrow> (case mapErr f xs of Inl e \<Rightarrow> Inl e | Inr ys \<Rightarrow> Inr (y # ys)))"

text \<open>The first element that satisfies \<open>P\<close> is updated, as a \<open>for\<close> loop that returns at
  its first hit does; \<open>None\<close> when there is no such element.\<close>

fun updateFirst :: "('a \<Rightarrow> bool) \<Rightarrow> ('a \<Rightarrow> 'a) \<Rightarrow> 'a list \<Rightarrow> 'a list option" where
  "updateFirst P f [] = None"
| "updateFirst P f (x # xs) =
     (if P x then Some (f x # xs)
      else (case updateFirst P f xs of None \<Rightarrow> None | Some ys \<Rightarrow> Some (x # ys)))"

subsection \<open>Codecs\<close>

text \<open>
  \<open>StandardCodecs\<close>, the table of the IANA-assigned payload types, is not under src/:
  it is a parameter \<open>tab\<close> of everything that reads it.
\<close>

type_synonym CodecTable = "8 word \<Rightarrow> Codec option"

definition Codec0 :: Codec where
  "Codec0 = \<lparr> Codec_PT = 0, Codec_Name = [], Codec_Rate = 0, Codec_Param = [], Codec_Fmtp = [],
     Codec_valid = False \<rparr>"

definition isDynamicPT :: "8 word \<Rightarrow> bool" where
  "isDynamicPT pt = (pt \<ge> 96)"

definition NewCodec :: "CodecTable \<Rightarrow> 8 word \<Rightarrow> SdpError + Codec" where
  "NewCodec tab pt =
     (if isDynamicPT pt then Inr (Codec0 \<lparr> Codec_PT := pt \<rparr>)
      else case tab pt of Some c \<Rightarrow> Inr c | None \<Rightarrow> Inl (UnknownIanaCodec pt))"

definition Codec_IsValid :: "Codec \<Rightarrow> bool" where
  "Codec_IsValid codec = (if isDynamicPT (Codec_PT codec) then Codec_valid codec else True)"

text \<open>\<open>Codec.addRtpmap\<close> assigns the name and the rate before it tests the conversion
  error, so a failed call leaves them changed.\<close>

definition Codec_addRtpmap :: "string \<Rightarrow> Codec \<Rightarrow> Codec \<times> SdpError option" where
  "Codec_addRtpmap s codec =
     (let tokens = Split s ''/'' in
      if length tokens \<ge> 2 then
        (let c1 = codec \<lparr> Codec_Name := tokens ! 0, Codec_Rate := fst (Atoi (tokens ! 1)) \<rparr> in
         if snd (Atoi (tokens ! 1)) \<noteq> None then (c1, Some (InvalidRtpmapRate (tokens ! 1)))
         else ((if length tokens \<ge> 3 then c1 \<lparr> Codec_Param := tokens ! 2 \<rparr> else c1)
                 \<lparr> Codec_valid := True \<rparr>, None))
      else (codec, Some (InvalidRtpmap s)))"

definition Codec_addFmtp :: "string \<Rightarrow> Codec \<Rightarrow> Codec \<times> SdpError option" where
  "Codec_addFmtp s codec = (codec \<lparr> Codec_Fmtp := s \<rparr>, None)"

subsection \<open>Media descriptions\<close>

definition IsKnownMediaType :: "string \<Rightarrow> string \<times> bool" where
  "IsKnownMediaType name =
     (if name \<in> set [''audio'', ''video'', ''text'', ''application'', ''message'', ''image'']
      then (name, True) else ([], False))"

definition IsKnownTransportProtocol :: "string \<Rightarrow> string \<times> bool" where
  "IsKnownTransportProtocol name =
     (if name \<in> set [''RTP/AVP'', ''RTP/AVPF'', ''RTP/SAVP'', ''RTP/SAVPF'', ''TCP/IP'', ''udp'']
      then (name, True) else ([], False))"

text \<open>\<open>NewMediaFromLine\<close> returns \<open>Inr None\<close> for Go's \<open>(nil, nil)\<close>: a disabled media.\<close>

definition NewMediaFromLine :: "CodecTable \<Rightarrow> string \<Rightarrow> bool \<Rightarrow> SdpError + Media option" where
  "NewMediaFromLine tab line strict =
     (let tokens = Fields line in
      if length tokens < 4 then Inl (NotEnoughTokens (length tokens))
      else if strict \<and> \<not> snd (IsKnownMediaType (tokens ! 0))
      then Inl (UnsupportedMediaType (tokens ! 0))
      else
        (let portStr = Split (tokens ! 1) ''/'' in
         case ParseUint (portStr ! 0) 16 of
           Inl e \<Rightarrow> Inl (InvalidPort (portStr ! 0))
         | Inr portU \<Rightarrow>
             if (word_of_nat portU :: 16 word) = 0 then Inr None
             else if length portStr > 1 \<and>
                     (snd (ParseInt (portStr ! 1)) \<noteq> None \<or>
                      \<not> (0 \<le> fst (ParseInt (portStr ! 1)) \<and> fst (ParseInt (portStr ! 1)) \<le> 65535))
             then Inl (InvalidPortRange (portStr ! 1))
             else if strict \<and> \<not> snd (IsKnownTransportProtocol (tokens ! 2))
             then Inl (UnsupportedMediaProtocol (tokens ! 2))
             else
               (case mapErr (\<lambda>pt. case ParseUint pt 8 of
                                     Inl e \<Rightarrow> Inl (InvalidPT pt)
                                   | Inr pti \<Rightarrow> Inr (word_of_nat pti :: 8 word))
                       (drop 3 tokens) of
                  Inl e \<Rightarrow> Inl e
                | Inr pts \<Rightarrow>
                    (case mapErr (NewCodec tab) pts of
                       Inl e \<Rightarrow> Inl e
                     | Inr codecs \<Rightarrow>
                         Inr (Some \<lparr> Media_Type = fst (IsKnownMediaType (tokens ! 0)),
                                     Media_Proto = fst (IsKnownTransportProtocol (tokens ! 2)),
                                     Media_Port = word_of_nat portU,
                                     Media_NumPorts =
                                       (if length portStr > 1 then fst (ParseInt (portStr ! 1)) else 0),
                                     Media_Addr = [], Media_Direction = [],
                                     Media_Codecs = codecs,
                                     Media_Ptime = 0, Media_Maxptime = 0,
                                     Media_Attrs = [], Media_Other = [] \<rparr>)))))"

text \<open>\<open>Media.addRtpmap\<close> and \<open>Media.addFmtp\<close> read \<open>tokens[0]\<close> and \<open>tokens[1]\<close> unchecked,
  update the first codec with the payload type, and drop what the codec's method returns.\<close>

definition Media_addRtpmap :: "string \<Rightarrow> Media \<Rightarrow> SdpError + Media" where
  "Media_addRtpmap line media =
     (let tokens = Fields line in
      if length tokens < 2 then Inl RuntimePanic
      else case ParseUint (tokens ! 0) 8 of
             Inl e \<Rightarrow> Inl (InvalidPTInRtpmap (tokens ! 0))
           | Inr pt \<Rightarrow>
               (case updateFirst (\<lambda>c. Codec_PT c = (word_of_nat pt :: 8 word))
                       (\<lambda>c. fst (Codec_addRtpmap (tokens ! 1) c)) (Media_Codecs media) of
                  None \<Rightarrow> Inl (CodecNotFound (tokens ! 0))
                | Some cs \<Rightarrow> Inr (media \<lparr> Media_Codecs := cs \<rparr>)))"

definition Media_addFmtp :: "string \<Rightarrow> Media \<Rightarrow> SdpError + Media" where
  "Media_addFmtp line media =
     (let tokens = Fields line in
      if length tokens < 2 then Inl RuntimePanic
      else case ParseUint (tokens ! 0) 8 of
             Inl e \<Rightarrow> Inl (InvalidPTInRtpmap (tokens ! 0))
           | Inr pt \<Rightarrow>
               (case updateFirst (\<lambda>c. Codec_PT c = (word_of_nat pt :: 8 word))
                       (\<lambda>c. fst (Codec_addFmtp (tokens ! 1) c)) (Media_Codecs media) of
                  None \<Rightarrow> Inl (CodecNotFound (tokens ! 0))
                | Some cs \<Rightarrow> Inr (media \<lparr> Media_Codecs := cs \<rparr>)))"

definition isDirection :: "string \<Rightarrow> bool" where
  "isDirection k = (k \<in> set [''sendrecv'', ''sendonly'', ''recvonly'', ''inactive''])"

definition Media_addAttribute :: "string \<Rightarrow> bool \<Rightarrow> Media \<Rightarrow> SdpError + Media" where
  "Media_addAttribute line strict media =
     (let lineParts = SplitN2 line '':''; key = lineParts ! 0 in
      if key = ''ptime'' then
        (if length lineParts < 2 then Inl RuntimePanic
         else if snd (Atoi (lineParts ! 1)) = None \<and> fst (Atoi (lineParts ! 1)) > 0
         then Inr (media \<lparr> Media_Ptime := fst (Atoi (lineParts ! 1)) \<rparr>)
         else Inl (InvalidPtime (lineParts ! 1)))
      else if key = ''maxptime'' then
        (if length lineParts < 2 then Inl RuntimePanic
         else if snd (Atoi (lineParts ! 1)) = None \<and> fst (Atoi (lineParts ! 1)) > 0
         then Inr (media \<lparr> Media_Maxptime := fst (Atoi (lineParts ! 1)) \<rparr>)
         else Inl (InvalidMaxptime (lineParts ! 1)))
      else if key = ''rtpmap'' then
        (if length lineParts < 2 then Inl RuntimePanic
         else case Media_addRtpmap (lineParts ! 1) media of
                Inl e \<Rightarrow> if e = RuntimePanic then Inl RuntimePanic
                          else Inl (InvalidRtpmapLine strict line)
              | Inr m \<Rightarrow> Inr m)
      else if isDirection key then
        (if Media_Direction media \<noteq> [] then Inl (ExtraDirection strict line)
         else Inr (media \<lparr> Media_Direction := line \<rparr>))
      else if key = ''fmtp'' then
        (if length lineParts < 2 then Inl RuntimePanic
         else case Media_addFmtp (lineParts ! 1) media of
                Inl e \<Rightarrow> if e = RuntimePanic then Inl RuntimePanic
                          else Inl (InvalidFmtpLine strict line)
              | Inr m \<Rightarrow> Inr m)
      else if key = [] then Inl (InvalidAttribute line)
      else Inr (media \<lparr> Media_Attrs := Media_Attrs media @
                  [(key, if length lineParts = 1 then [] else lineParts ! 1)] \<rparr>))"

definition Media_addOther :: "string \<Rightarrow> Media \<Rightarrow> SdpError + Media" where
  "Media_addOther line media =
     (let split = SplitN2 line ''='' in
      if split ! 0 = [] then Inl (InvalidProperty line)
      else Inr (media \<lparr> Media_Other := Media_Other media @
                  [(split ! 0, if length split = 1 then [] else split ! 1)] \<rparr>))"

subsection \<open>Session-level lines\<close>

definition parseConnLine :: "string \<Rightarrow> SdpError + string" where
  "parseConnLine line =
     (let tokens = Fields (drop 2 line) in
      if length tokens \<noteq> 3 then Inl InvalidConnLine
      else if tokens ! 0 \<noteq> ''IN'' \<or> (tokens ! 1 \<noteq> ''IP4'' \<and> tokens ! 1 \<noteq> ''IP6'')
      then Inl UnsupportedConnNetType
      else if CHR ''/'' \<in> set (tokens ! 2) then Inl MulticastConn
      else Inr (tokens ! 2))"

definition parseOriginLine :: "string \<Rightarrow> SdpError + Origin" where
  "parseOriginLine line =
     (let tokens = Fields (drop 2 line) in
      if length tokens \<noteq> 6 then Inl InvalidOriginLine
      else if tokens ! 3 \<noteq> ''IN'' \<or> (tokens ! 4 \<noteq> ''IP4'' \<and> tokens ! 4 \<noteq> ''IP6'')
      then Inl UnsupportedOriginNetType
      else if CHR ''/'' \<in> set (tokens ! 5) then Inl MulticastOrigin
      else Inr \<lparr> Origin_User = tokens ! 0, Origin_ID = tokens ! 1, Origin_Version = tokens ! 2,
                 Origin_Addr = tokens ! 5 \<rparr>)"

definition SDP_addAttribute :: "string \<Rightarrow> bool \<Rightarrow> SDP \<Rightarrow> SdpError + SDP" where
  "SDP_addAttribute line strict sdp =
     (let lineParts = SplitN2 line '':''; key = lineParts ! 0 in
      if key = ''tool'' then Inr sdp
      else if isDirection key then
        (if SDP_Direction sdp \<noteq> [] then Inl (ExtraDirection strict line)
         else Inr (sdp \<lparr> SDP_Direction := line \<rparr>))
      else if key = [] then Inl (InvalidAttribute line)
      else Inr (sdp \<lparr> SDP_Attrs := SDP_Attrs sdp @
                  [(key, if length lineParts = 1 then [] else lineParts ! 1)] \<rparr>))"

definition SDP_addOther :: "string \<Rightarrow> SDP \<Rightarrow> SdpError + SDP" where
  "SDP_addOther line sdp =
     (let split = SplitN2 line ''='' in
      if split ! 0 = [] then Inl (InvalidProperty line)
      else Inr (sdp \<lparr> SDP_Other := SDP_Other sdp @
                  [(split ! 0, if length split = 1 then [] else split ! 1)] \<rparr>))"

subsection \<open>Parse\<close>

text \<open>
  The local variables of \<open>Parse\<close>. \<open>inMedia\<close> is a pointer to the media description
  that was appended last, or nil: the flag says which, and the description itself is the
  last element of \<open>sdp.Media\<close>. \<open>warnings\<close> holds the chain that the lenient mode wraps
  into \<open>warning\<close>, oldest first; \<open>foundWarnings\<close> is its being non-empty.
\<close>

record ParseState =
  sdp :: SDP
  inMedia :: bool
  skippingInvalidMedia :: bool
  foundOrigin :: bool
  foundConn :: bool
  warnings :: "SdpError list"

definition ParseState0 :: ParseState where
  "ParseState0 =
     \<lparr> sdp = \<lparr> SDP_Origin = None, SDP_Addr = [], SDP_Media = [], SDP_Session = ''-'',
               SDP_Time = ''0 0'', SDP_Direction = [], SDP_Attrs = [], SDP_Other = [] \<rparr>,
       inMedia = False, skippingInvalidMedia = False, foundOrigin = False, foundConn = False,
       warnings = [] \<rparr>"

definition warn :: "SdpError \<Rightarrow> ParseState \<Rightarrow> ParseState" where
  "warn e st = st \<lparr> warnings := warnings st @ [e] \<rparr>"

text \<open>In strict mode an anomaly ends the parse; in lenient mode it is recorded and the
  line is dropped. A panic ends the parse in both.\<close>

definition anomaly :: "bool \<Rightarrow> SdpError \<Rightarrow> ParseState \<Rightarrow> SdpError + ParseState" where
  "anomaly strict e st = (if strict then Inl e else Inr (warn e st))"

definition setLastMedia :: "Media \<Rightarrow> ParseState \<Rightarrow> ParseState" where
  "setLastMedia m st = st \<lparr> sdp := (sdp st) \<lparr> SDP_Media := butlast (SDP_Media (sdp st)) @ [m] \<rparr> \<rparr>"

definition hasPanic :: "SdpError \<Rightarrow> bool" where
  "hasPanic e = (e = RuntimePanic)"

text \<open>The body of the \<open>for _, line := range lines\<close> loop, one \<open>switch\<close> case after the
  other in the order of the source.\<close>

definition parseLine :: "CodecTable \<Rightarrow> bool \<Rightarrow> string \<Rightarrow> ParseState \<Rightarrow> SdpError + ParseState" where
  "parseLine tab strict line st =
     (if line = [] then Inr st
      else if length line < 3 \<or> line ! 1 \<noteq> CHR ''='' then anomaly strict (InvalidLine line) st
      else if line ! 0 = CHR ''s'' then Inr (st \<lparr> sdp := (sdp st) \<lparr> SDP_Session := drop 2 line \<rparr> \<rparr>)
      else if line ! 0 = CHR ''t'' then Inr (st \<lparr> sdp := (sdp st) \<lparr> SDP_Time := drop 2 line \<rparr> \<rparr>)
      else if line ! 0 = CHR ''m'' then
        (case NewMediaFromLine tab (drop 2 line) strict of
           Inl e \<Rightarrow>
             (if strict then Inl (MediaLineError e (drop 2 line))
              else Inr (warn (MediaLineError e (drop 2 line))
                         (st \<lparr> inMedia := False, skippingInvalidMedia := True \<rparr>)))
         | Inr None \<Rightarrow> Inr (st \<lparr> inMedia := False, skippingInvalidMedia := True \<rparr>)
         | Inr (Some m) \<Rightarrow>
             Inr (st \<lparr> inMedia := True, skippingInvalidMedia := False,
                       sdp := (sdp st) \<lparr> SDP_Media := SDP_Media (sdp st) @ [m] \<rparr> \<rparr>))
      else if line ! 0 = CHR ''c'' then
        (if skippingInvalidMedia st then Inr st
         else if \<not> inMedia st then
           (if foundConn st then anomaly strict (ExtraConnLine line) st
            else case parseConnLine line of
                   Inl e \<Rightarrow> Inl e
                 | Inr a \<Rightarrow> Inr (st \<lparr> sdp := (sdp st) \<lparr> SDP_Addr := a \<rparr>, foundConn := True \<rparr>))
         else
           (if Media_Addr (last (SDP_Media (sdp st))) \<noteq> [] then anomaly strict (ExtraConnLine line) st
            else case parseConnLine line of
                   Inl e \<Rightarrow> Inl e
                 | Inr a \<Rightarrow> Inr (setLastMedia ((last (SDP_Media (sdp st))) \<lparr> Media_Addr := a \<rparr>) st)))
      else if line ! 0 = CHR ''o'' then
        (if inMedia st \<or> skippingInvalidMedia st then anomaly strict (OriginAfterMedia line) st
         else if SDP_Origin (sdp st) \<noteq> None then anomaly strict (ExtraOriginLine line) st
         else case parseOriginLine line of
                Inl e \<Rightarrow> Inl e
              | Inr orig \<Rightarrow>
                  Inr (st \<lparr> sdp := (sdp st) \<lparr> SDP_Origin := Some orig \<rparr>, foundOrigin := True \<rparr>))
      else if line ! 0 = CHR ''a'' then
        (if skippingInvalidMedia st then Inr st
         else if \<not> inMedia st then
           (case SDP_addAttribute (drop 2 line) strict (sdp st) of
              Inl e \<Rightarrow> if hasPanic e then Inl e
                        else anomaly strict (SessionAttrError e (drop 2 line)) st
            | Inr sdp' \<Rightarrow> Inr (st \<lparr> sdp := sdp' \<rparr>))
         else
           (case Media_addAttribute (drop 2 line) strict (last (SDP_Media (sdp st))) of
              Inl e \<Rightarrow> if hasPanic e then Inl e
                        else anomaly strict (MediaAttrError e (drop 2 line)) st
            | Inr m \<Rightarrow> Inr (setLastMedia m st)))
      else
        (if skippingInvalidMedia st then Inr st
         else if \<not> inMedia st then
           (case SDP_addOther line (sdp st) of
              Inl e \<Rightarrow> anomaly strict (SessionOtherError e line) st
            | Inr sdp' \<Rightarrow> Inr (st \<lparr> sdp := sdp' \<rparr>))
         else
           (case Media_addOther line (last (SDP_Media (sdp st))) of
              Inl e \<Rightarrow> anomaly strict (MediaOtherError e line) st
            | Inr m \<Rightarrow> Inr (setLastMedia m st))))"

fun parseLines :: "CodecTable \<Rightarrow> bool \<Rightarrow> string list \<Rightarrow> ParseState \<Rightarrow> SdpError + ParseState" where
  "parseLines tab strict [] st = Inr st"
| "parseLines tab strict (line # rest) st =
     (case parseLine tab strict line st of
        Inl e \<Rightarrow> Inl e
      | Inr st' \<Rightarrow> parseLines tab strict rest st')"

text \<open>The closing loop over every codec of every media description.\<close>

fun checkCodecs :: "bool \<Rightarrow> Codec list \<Rightarrow> SdpError list \<Rightarrow> SdpError + SdpError list" where
  "checkCodecs strict [] ws = Inr ws"
| "checkCodecs strict (c # cs) ws =
     (if \<not> Codec_IsValid c then
        (if strict then Inl (MissingRtpmap (Codec_PT c))
         else checkCodecs strict cs (ws @ [MissingRtpmap (Codec_PT c)]))
      else checkCodecs strict cs ws)"

text \<open>What \<open>Parse\<close> does once the text is split into lines: the loop and the closing
  checks. \<open>Inr (sdp, [])\<close> is the return of an SDP with a nil error, \<open>Inr (sdp, ws)\<close> with
  \<open>ws\<close> non-empty the return of an SDP together with the warning chain.\<close>

definition ParseLines :: "CodecTable \<Rightarrow> string list \<Rightarrow> bool \<Rightarrow> SdpError + (SDP \<times> SdpError list)" where
  "ParseLines tab lines strict =
     (case parseLines tab strict lines ParseState0 of
        Inl e \<Rightarrow> Inl e
      | Inr st \<Rightarrow>
          if \<not> foundConn st \<and> \<not> foundOrigin st then Inl MissingMandatory
          else if SDP_Media (sdp st) = [] then Inl NoMediaDescriptions
          else (case checkCodecs strict (concat (map Media_Codecs (SDP_Media (sdp st))))
                       (warnings st) of
                  Inl e \<Rightarrow> Inl e
                | Inr ws \<Rightarrow> Inr (sdp st, ws)))"

definition Parse :: "CodecTable \<Rightarrow> string \<Rightarrow> bool \<Rightarrow> SdpError + (SDP \<times> SdpError list)" where
  "Parse tab s strict =
     (if \<not> HasPrefix s (''v=0'' @ CRLF) then Inl MustStartWithV0
      else if length (Split (drop 5 s) CRLF) < 2 then Inl TooFewLines
      else ParseLines tab (Split (drop 5 s) CRLF) strict)"

section \<open>Package sip: messages and header chains\<close>

text \<open>
  The linked chains of the source (\<open>Via\<close>, \<open>Addr\<close>, \<open>Param\<close>, each with a \<open>Next\<close>
  pointer) are lists whose head is the first element of the chain; a nil chain is the
  empty list. Only the fields that the dialog package reads or writes are kept.
\<close>

type_synonym Param = "(string \<times> string) list"

record SipURI =
  URI_Scheme :: string
  URI_User :: string
  URI_Host :: string
  URI_Port :: "16 word"
  URI_Param :: Param

record SipAddr =
  Addr_Uri :: "SipURI option"
  Addr_Display :: string
  Addr_Param :: Param

record SipVia =
  Via_Host :: string
  Via_Port :: "16 word"
  Via_Param :: Param

datatype Payload = NoPayload | SdpPayload SDP | RawPayload string

record SipMsg =
  VersionMajor :: int
  VersionMinor :: int
  Method :: string
  Request :: "SipURI option"
  Status :: int
  Phrase :: string
  Via :: "SipVia list"
  From :: "SipAddr list"
  To :: "SipAddr list"
  CallID :: string
  CSeq :: int
  CSeqMethod :: string
  Contact :: "SipAddr list"
  Route :: "SipAddr list"
  RecordRoute :: "SipAddr list"
  MaxForwards :: int
  UserAgent :: string
  Allow :: string
  Authorization :: string
  ProxyAuthorization :: string
  Payload :: Payload

text \<open>The zero value of \<open>sip.Msg\<close>, from which the constructors build their results.\<close>

definition Msg0 :: SipMsg where
  "Msg0 = \<lparr> VersionMajor = 0, VersionMinor = 0, Method = [], Request = None, Status = 0,
     Phrase = [], Via = [], From = [], To = [], CallID = [], CSeq = 0, CSeqMethod = [],
     Contact = [], Route = [], RecordRoute = [], MaxForwards = 0, UserAgent = [],
     Allow = [], Authorization = [], ProxyAuthorization = [], Payload = NoPayload \<rparr>"

definition MethodInvite :: string where "MethodInvite = ''INVITE''"
definition MethodAck :: string where "MethodAck = ''ACK''"
definition MethodCancel :: string where "MethodCancel = ''CANCEL''"
definition MethodBye :: string where "MethodBye = ''BYE''"
definition MethodOptions :: string where "MethodOptions = ''OPTIONS''"

text \<open>
  Modelled from the spec: the helper methods of package sip are not under src/. The spec
  describes the chains (a Via is the head of a linked chain, each hop with host, port and
  params; parameter lists are ordered and looked up by name; chains can be reversed and
  their head detached), and the callers under src/ fix the rest: \<open>RouteMessage\<close> appends
  to a chain by assigning \<open>Last().Next\<close>, so \<open>Last\<close> is the final element of the chain, and
  every helper is called on possibly-nil receivers, so a nil receiver never matches.
\<close>

definition Param_Get :: "string \<Rightarrow> Param \<Rightarrow> string option" where
  "Param_Get name p = map_of p name"

definition IsResponse :: "SipMsg \<Rightarrow> bool" where
  "IsResponse msg = (Status msg > 0)"

definition Via_Last :: "SipVia list \<Rightarrow> SipVia option" where
  "Via_Last vs = (if vs = [] then None else Some (last vs))"

definition Via_head :: "SipVia list \<Rightarrow> SipVia option" where
  "Via_head vs = (case vs of [] \<Rightarrow> None | v # _ \<Rightarrow> Some v)"

definition Via_CompareHostPort :: "SipVia option \<Rightarrow> SipVia option \<Rightarrow> bool" where
  "Via_CompareHostPort via other =
     (case (via, other) of
        (Some a, Some b) \<Rightarrow> Via_Host a = Via_Host b \<and> Via_Port a = Via_Port b
      | _ \<Rightarrow> False)"

definition Via_CompareBranch :: "SipVia option \<Rightarrow> SipVia option \<Rightarrow> bool" where
  "Via_CompareBranch via other =
     (case (via, other) of
        (Some a, Some b) \<Rightarrow>
          (case (Param_Get ''branch'' (Via_Param a), Param_Get ''branch'' (Via_Param b)) of
             (Some x, Some y) \<Rightarrow> x = y
           | _ \<Rightarrow> False)
      | _ \<Rightarrow> False)"

definition Via_Detach :: "SipVia list \<Rightarrow> SipVia list" where
  "Via_Detach vs = take 1 vs"

definition Addr_Reversed :: "SipAddr list \<Rightarrow> SipAddr list" where
  "Addr_Reversed as = rev as"

definition URI_GetPort :: "SipURI \<Rightarrow> 16 word" where
  "URI_GetPort uri =
     (if URI_Port uri = 0 then (if URI_Scheme uri = ''sips'' then 5061 else 5060)
      else URI_Port uri)"

definition Addr_head :: "SipAddr list \<Rightarrow> SipAddr option" where
  "Addr_head as = (case as of [] \<Rightarrow> None | a # _ \<Rightarrow> Some a)"

definition Addr_CompareHostPort :: "SipAddr option \<Rightarrow> SipAddr option \<Rightarrow> bool" where
  "Addr_CompareHostPort a other =
     (case (a, other) of
        (Some x, Some y) \<Rightarrow>
          (case (Addr_Uri x, Addr_Uri y) of
             (Some u, Some v) \<Rightarrow> URI_Host u = URI_Host v \<and> URI_GetPort u = URI_GetPort v
           | _ \<Rightarrow> False)
      | _ \<Rightarrow> False)"

definition sip_StatusTrying :: int where "sip_StatusTrying = 100"
definition sip_StatusRinging :: int where "sip_StatusRinging = 180"
definition sip_StatusSessionProgress :: int where "sip_StatusSessionProgress = 183"
definition sip_StatusOK :: int where "sip_StatusOK = 200"
definition sip_StatusMovedPermanently :: int where "sip_StatusMovedPermanently = 301"
definition sip_StatusMovedTemporarily :: int where "sip_StatusMovedTemporarily = 302"
definition sip_StatusMethodNotAllowed :: int where "sip_StatusMethodNotAllowed = 405"
definition sip_StatusCallTransactionDoesNotExist :: int where "sip_StatusCallTransactionDoesNotExist = 481"
definition sip_StatusTooManyHops :: int where "sip_StatusTooManyHops = 483"
definition sip_StatusInternalServerError :: int where "sip_StatusInternalServerError = 500"
definition sip_StatusServiceUnavailable :: int where "sip_StatusServiceUnavailable = 503"
definition sip_StatusVersionNotSupported :: int where "sip_StatusVersionNotSupported = 505"

text \<open>Modelled from the spec: \<open>sip.Phrase\<close> is not under src/; the reason phrases are
  those the spec and the log messages of the source give to the codes in use.\<close>

definition Phrase_of :: "int \<Rightarrow> string" where
  "Phrase_of status =
     (if status = 100 then ''Trying'' else if status = 180 then ''Ringing''
      else if status = 183 then ''Session Progress'' else if status = 200 then ''OK''
      else if status = 405 then ''Method Not Allowed''
      else if status = 481 then ''Call/Transaction Does Not Exist''
      else if status = 483 then ''Too Many Hops''
      else if status = 500 then ''Internal Server Error''
      else if status = 503 then ''Service Unavailable''
      else if status = 505 then ''Version Not Supported'' else [])"

section \<open>Package dialog: the manager and its socket\<close>

datatype GoPanic = NilPointer | IndexOutOfRange

text \<open>
  The fields of \<open>Manager\<close> that the modelled functions read. \<open>m_contact\<close> and \<open>m_via\<close> are
  the templates that \<open>NewManager\<close> builds (never nil); \<open>PublicAddress\<close> and \<open>PublicPort\<close>
  stand for the methods of these names. Messages are values: a sub-object that the Go
  code shares between two messages (a Via or an address chain copied by pointer) is
  copied here, and the one pointer identity that the code tests, \<open>request == invite\<close>, is
  kept explicitly in the dialog state.
\<close>

record Manager =
  maxResends :: int
  timestampTagging :: bool
  userAgent :: string
  proxyAddress :: "string option"
  allowReinvite :: bool
  m_contact :: SipAddr
  m_via :: SipVia
  PublicAddress :: string
  PublicPort :: "16 word"

text \<open>
  What lies outside the program: the generators of package util, the resolver, the
  clock and the socket. Each is a function of a tick that \<open>Send\<close> and the dialog advance,
  so that any sequence of outcomes can be supplied.
\<close>

record Env =
  GenerateCallID :: "nat \<Rightarrow> string"
  GenerateCSeq :: "nat \<Rightarrow> int"
  GenerateBranch :: "nat \<Rightarrow> string"
  GenerateTag :: "nat \<Rightarrow> string"
  GenerateOriginID :: "nat \<Rightarrow> string"
  UnixMicro :: "nat \<Rightarrow> int"
  ResolveUDPAddr :: "nat \<Rightarrow> string \<Rightarrow> string \<Rightarrow> string option"
  WriteToUDP_fails :: "nat \<Rightarrow> bool"
  ParseIP_ok :: "string \<Rightarrow> bool"
  LookupSRV :: "nat \<Rightarrow> string \<Rightarrow> (string \<times> 16 word) list option"

text \<open>The socket: every datagram written, oldest first, with its destination; the
  message stands for its own serialisation at the moment of the write.\<close>

record World =
  tick :: nat
  wire :: "(string \<times> SipMsg) list"

datatype SendError =
    ErrLocalLoopDetected
  | ErrDontRouteRegister
  | ErrRportSyntax
  | ErrResolve
  | ErrWrite
  | Panicked GoPanic

definition pushParam :: "string \<Rightarrow> string \<Rightarrow> SipVia list \<Rightarrow> SipVia list" where
  "pushParam name val vs =
     (case vs of [] \<Rightarrow> []
      | v # rest \<Rightarrow> v \<lparr> Via_Param := (name, val) # Via_Param v \<rparr> # rest)"

text \<open>\<open>PopulateMessage\<close> fills the missing fields of a request, one \<open>if\<close> statement
  after the other; each statement is a function here. It dereferences \<open>msg.Contact\<close>
  and its URI when From is missing, and \<open>msg.Via\<close> for the branch.\<close>

definition populateVia :: "SipVia option \<Rightarrow> SipMsg \<Rightarrow> SipMsg" where
  "populateVia via msg =
     (if Via msg = [] then msg \<lparr> Via := (case via of None \<Rightarrow> [] | Some v \<Rightarrow> [v]) \<rparr> else msg)"

definition populateContact :: "SipAddr option \<Rightarrow> SipMsg \<Rightarrow> SipMsg" where
  "populateContact contact msg =
     (if Contact msg = []
      then msg \<lparr> Contact := (case contact of None \<Rightarrow> [] | Some c \<Rightarrow> [c]) \<rparr> else msg)"

definition populateTo :: "SipMsg \<Rightarrow> SipMsg" where
  "populateTo msg =
     (if To msg = []
      then msg \<lparr> To := [\<lparr> Addr_Uri = Request msg, Addr_Display = [], Addr_Param = [] \<rparr>] \<rparr>
      else msg)"

definition populateFrom :: "SipMsg \<Rightarrow> SipMsg" where
  "populateFrom msg =
     (if From msg = []
      then msg \<lparr> From := (hd (Contact msg))
                  \<lparr> Addr_Uri := map_option (\<lambda>u. u \<lparr> URI_Param := [] \<rparr>)
                                  (Addr_Uri (hd (Contact msg))) \<rparr> # tl (Contact msg) \<rparr>
      else msg)"

definition populateCallID :: "Env \<Rightarrow> nat \<Rightarrow> SipMsg \<Rightarrow> SipMsg" where
  "populateCallID env t msg =
     (if CallID msg = [] then msg \<lparr> CallID := GenerateCallID env t \<rparr> else msg)"

definition populateCSeq :: "Env \<Rightarrow> nat \<Rightarrow> SipMsg \<Rightarrow> SipMsg" where
  "populateCSeq env t msg = (if CSeq msg = 0 then msg \<lparr> CSeq := GenerateCSeq env t \<rparr> else msg)"

definition populateCSeqMethod :: "SipMsg \<Rightarrow> SipMsg" where
  "populateCSeqMethod msg =
     (if CSeqMethod msg = [] then msg \<lparr> CSeqMethod := Method msg \<rparr> else msg)"

definition populateMaxForwards :: "SipMsg \<Rightarrow> SipMsg" where
  "populateMaxForwards msg = (if MaxForwards msg = 0 then msg \<lparr> MaxForwards := 70 \<rparr> else msg)"

definition populateUserAgent :: "Manager \<Rightarrow> SipMsg \<Rightarrow> SipMsg" where
  "populateUserAgent m msg =
     (if UserAgent msg = [] then msg \<lparr> UserAgent := userAgent m \<rparr> else msg)"

definition populateBranch :: "Env \<Rightarrow> nat \<Rightarrow> SipMsg \<Rightarrow> SipMsg" where
  "populateBranch env t msg =
     (if Param_Get ''branch'' (Via_Param (hd (Via msg))) = None
      then msg \<lparr> Via := pushParam ''branch'' (GenerateBranch env t) (Via msg) \<rparr> else msg)"

definition populateTag :: "Env \<Rightarrow> nat \<Rightarrow> SipMsg \<Rightarrow> SipMsg" where
  "populateTag env t msg =
     (if Param_Get ''tag'' (Addr_Param (hd (From msg))) = None
      then msg \<lparr> From := (hd (From msg))
                  \<lparr> Addr_Param := (''tag'', GenerateTag env t) # Addr_Param (hd (From msg)) \<rparr>
                  # tl (From msg) \<rparr>
      else msg)"

definition PopulateMessage ::
  "Manager \<Rightarrow> Env \<Rightarrow> nat \<Rightarrow> SipVia option \<Rightarrow> SipAddr option \<Rightarrow> SipMsg \<Rightarrow> GoPanic + SipMsg" where
  "PopulateMessage m env t via contact msg =
     (if IsResponse msg then Inr msg
      else if From (populateTo (populateContact contact (populateVia via msg))) = [] \<and>
              (Contact (populateTo (populateContact contact (populateVia via msg))) = [] \<or>
               Addr_Uri (hd (Contact (populateTo (populateContact contact (populateVia via msg)))))
                 = None)
      then Inl NilPointer
      else if Via (populateVia via msg) = [] then Inl NilPointer
      else Inr (populateTag env t (populateBranch env t (populateUserAgent m
                  (populateMaxForwards (populateCSeqMethod (populateCSeq env t
                     (populateCallID env t (populateFrom
                        (populateTo (populateContact contact (populateVia via msg))))))))))))"

text \<open>\<open>RouteMessage\<close> returns the next hop and leaves the message changed where the Go
  code assigns to its fields; the changed message comes back with an error as well.\<close>

definition RouteMessage ::
  "SipVia option \<Rightarrow> SipAddr option \<Rightarrow> SipMsg \<Rightarrow> SendError option \<times> string \<times> 16 word \<times> SipMsg" where
  "RouteMessage via contact msg =
     (if IsResponse msg then
        (let m1 = (if Via_CompareHostPort via (Via_head (Via msg)) then msg \<lparr> Via := tl (Via msg) \<rparr>
                   else msg)
         in case Via m1 of
              [] \<Rightarrow> (Some (Panicked NilPointer), [], 0, m1)
            | v # _ \<Rightarrow>
                (let host = (case Param_Get ''received'' (Via_Param v) of
                               None \<Rightarrow> Via_Host v | Some r \<Rightarrow> r)
                 in case Param_Get ''rport'' (Via_Param v) of
                      None \<Rightarrow> (None, host, Via_Port v, m1)
                    | Some rp \<Rightarrow>
                        if rp = [] then (None, host, Via_Port v, m1)
                        else if snd (Atoi rp) \<noteq> None then (Some ErrRportSyntax, [], 0, m1)
                        else (None, host, word_of_int (fst (Atoi rp)), m1)))
      else
        (let m1 = (if Addr_CompareHostPort contact (Addr_head (Route msg))
                   then msg \<lparr> Route := tl (Route msg) \<rparr> else msg)
         in case Route m1 of
              [] \<Rightarrow>
                (case Request m1 of
                   None \<Rightarrow> (Some (Panicked NilPointer), [], 0, m1)
                 | Some u \<Rightarrow> (None, URI_Host u, URI_Port u, m1))
            | r # rs \<Rightarrow>
                if Method m1 = ''REGISTER'' then (Some ErrDontRouteRegister, [], 0, m1)
                else
                  (case Addr_Uri r of
                     None \<Rightarrow> (Some (Panicked NilPointer), [], 0, m1)
                   | Some u \<Rightarrow>
                       if Param_Get ''lr'' (URI_Param u) \<noteq> None
                       then (None, URI_Host u, URI_Port u, m1)
                       else (None, URI_Host u, URI_Port u,
                             m1 \<lparr> Route := rs @ [\<lparr> Addr_Uri = Request m1, Addr_Display = [],
                                                   Addr_Param = [] \<rparr>],
                                  Request := Some u \<rparr>))))"

definition addTimestamp :: "Manager \<Rightarrow> Env \<Rightarrow> nat \<Rightarrow> SipMsg \<Rightarrow> GoPanic + SipMsg" where
  "addTimestamp m env t msg =
     (if timestampTagging m then
        (if Via msg = [] then Inl NilPointer
         else Inr (msg \<lparr> Via := pushParam ''usi'' (FormatInt (UnixMicro env t)) (Via msg) \<rparr>))
      else Inr msg)"

text \<open>
  \<open>Manager.Send\<close>: populate, choose the destination, count the hop, stamp, write. The
  result is the error (\<open>None\<close> for nil), the message as the call leaves it, and the
  socket. The hop count of the current revision is \<open>hopCheck\<close>: the flag says whether
  the call returns \<open>ErrLocalLoopDetected\<close>, the number is the Max-Forwards it leaves.
\<close>

definition hopCheck :: "int \<Rightarrow> bool \<times> int" where
  "hopCheck mf = (if mf > 0 then (mf - 1 = 0, mf - 1) else (False, mf))"

definition SendWith ::
  "(int \<Rightarrow> bool \<times> int) \<Rightarrow> Manager \<Rightarrow> Env \<Rightarrow> World \<Rightarrow> SipMsg \<Rightarrow>
     SendError option \<times> SipMsg \<times> World" where
  "SendWith hop m env w msg =
     (let t = tick w; w1 = w \<lparr> tick := Suc (tick w) \<rparr> in
      case PopulateMessage m env t (Some (m_via m)) (Some (m_contact m)) msg of
        Inl p \<Rightarrow> (Some (Panicked p), msg, w1)
      | Inr m1 \<Rightarrow>
          (let routed = (case proxyAddress m of
                           Some a \<Rightarrow> (None, a, m1)
                         | None \<Rightarrow>
                             (case RouteMessage (Some (m_via m)) (Some (m_contact m)) m1 of
                                (Some e, _, _, m2) \<Rightarrow> (Some e, [], m2)
                              | (None, host, port, m2) \<Rightarrow>
                                  (case ResolveUDPAddr env t host (Itoa (uint port)) of
                                     None \<Rightarrow> (Some ErrResolve, [], m2)
                                   | Some a \<Rightarrow> (None, a, m2))))
           in case routed of
                (Some e, _, m2) \<Rightarrow> (Some e, m2, w1)
              | (None, destination, m2) \<Rightarrow>
                  if fst (hop (MaxForwards m2))
                  then (Some ErrLocalLoopDetected,
                        m2 \<lparr> MaxForwards := snd (hop (MaxForwards m2)) \<rparr>, w1)
                  else
                    (let m3 = m2 \<lparr> MaxForwards := snd (hop (MaxForwards m2)) \<rparr>
                     in case addTimestamp m env t m3 of
                          Inl p \<Rightarrow> (Some (Panicked p), m3, w1)
                        | Inr m4 \<Rightarrow>
                            if WriteToUDP_fails env t then (Some ErrWrite, m4, w1)
                            else (None, m4, w1 \<lparr> wire := wire w1 @ [(destination, m4)] \<rparr>))))"

definition Send :: "Manager \<Rightarrow> Env \<Rightarrow> World \<Rightarrow> SipMsg \<Rightarrow> SendError option \<times> SipMsg \<times> World" where
  "Send = SendWith hopCheck"

text \<open>
  The earlier revision of \<open>Manager.Send\<close> that the sources also hold differs in the hop
  count only: it tests \<open>MaxForwards == 0\<close> after, not inside, the decrement.
\<close>

definition hopCheck_earlier :: "int \<Rightarrow> bool \<times> int" where
  "hopCheck_earlier mf = (let mf' = (if mf > 0 then mf - 1 else mf) in (mf' = 0, mf'))"

definition Send_earlier ::
  "Manager \<Rightarrow> Env \<Rightarrow> World \<Rightarrow> SipMsg \<Rightarrow> SendError option \<times> SipMsg \<times> World" where
  "Send_earlier = SendWith hopCheck_earlier"

section \<open>Package dialog: message constructors and matching\<close>

definition NewResponse :: "Manager \<Rightarrow> SipMsg \<Rightarrow> int \<Rightarrow> SipMsg" where
  "NewResponse m msg status =
     Msg0 \<lparr> Status := status,
            Phrase := Phrase_of status,
            Via := Via msg,
            From := From msg,
            To := To msg,
            CallID := CallID msg,
            CSeq := CSeq msg,
            CSeqMethod := CSeqMethod msg,
            RecordRoute := RecordRoute msg,
            UserAgent := userAgent m,
            Allow := (if allowReinvite m then ''INVITE, ACK, CANCEL, BYE, OPTIONS''
                      else ''ACK, CANCEL, BYE, OPTIONS'') \<rparr>"

definition NewCancel :: "Manager \<Rightarrow> SipMsg \<Rightarrow> SipMsg" where
  "NewCancel m invite =
     Msg0 \<lparr> Method := MethodCancel,
            Request := Request invite,
            Via := Via invite,
            From := From invite,
            To := To invite,
            CallID := CallID invite,
            CSeq := CSeq invite,
            CSeqMethod := MethodCancel,
            Route := Route invite \<rparr>"

text \<open>\<open>NewBye\<close> with a non-nil \<open>lSeq\<close> pointer, as \<open>hangup\<close> calls it: the counter is
  incremented through the pointer and comes back as the second component.\<close>

definition NewBye :: "Manager \<Rightarrow> SipMsg \<Rightarrow> SipMsg option \<Rightarrow> int \<Rightarrow> GoPanic + (SipMsg \<times> int)" where
  "NewBye m invite remote lSeq =
     (case remote of
        None \<Rightarrow> Inl NilPointer
      | Some r \<Rightarrow>
          (case Contact r of
             [] \<Rightarrow> Inl NilPointer
           | c # _ \<Rightarrow>
               Inr (Msg0 \<lparr> Method := MethodBye,
                           Request := Addr_Uri c,
                           From := From invite,
                           To := To r,
                           CallID := CallID invite,
                           CSeq := lSeq + 1,
                           CSeqMethod := MethodBye,
                           Route := Addr_Reversed (RecordRoute r) \<rparr>, lSeq + 1)))"

text \<open>
  \<open>ResponseMatch\<close> reads \<open>req.Via\<close>, the head of the request's chain, and
  \<open>rsp.Via.Last()\<close>, the final hop of the response's chain.
\<close>

definition ResponseMatch :: "SipMsg \<Rightarrow> SipMsg \<Rightarrow> bool" where
  "ResponseMatch req rsp =
     (IsResponse rsp \<and>
      CSeq rsp = CSeq req \<and>
      CSeqMethod rsp = Method req \<and>
      Via_CompareHostPort (Via_Last (Via rsp)) (Via_head (Via req)) \<and>
      Via_CompareBranch (Via_Last (Via rsp)) (Via_head (Via req)))"

text \<open>
  The matching rule in the spec's words, for comparison with \<open>ResponseMatch\<close>: the
  topmost Via of the response is compared.
\<close>

definition ResponseMatch_spec :: "SipMsg \<Rightarrow> SipMsg \<Rightarrow> bool" where
  "ResponseMatch_spec req rsp =
     (IsResponse rsp \<and>
      CSeq rsp = CSeq req \<and>
      CSeqMethod rsp = Method req \<and>
      Via_CompareHostPort (Via_head (Via rsp)) (Via_head (Via req)) \<and>
      Via_CompareBranch (Via_head (Via rsp)) (Via_head (Via req)))"

text \<open>
  \<open>NewAck\<close> dereferences \<open>msg.Contact\<close>; on a nil Contact the Go code panics.
\<close>

definition NewAck :: "Manager \<Rightarrow> SipMsg \<Rightarrow> SipMsg \<Rightarrow> GoPanic + SipMsg" where
  "NewAck m msg invite =
     (case Contact msg of
        [] \<Rightarrow> Inl NilPointer
      | c # _ \<Rightarrow>
          Inr (Msg0 \<lparr> Method := MethodAck,
                      Request := Addr_Uri c,
                      From := From msg,
                      To := To msg,
                      Via := Via_Detach (Via msg),
                      CallID := CallID msg,
                      CSeq := CSeq msg,
                      CSeqMethod := ''ACK'',
                      Route := Addr_Reversed (RecordRoute msg),
                      Authorization := Authorization invite,
                      ProxyAuthorization := ProxyAuthorization invite,
                      UserAgent := userAgent m \<rparr>))"

section \<open>Package dialog: the dialog state machine\<close>

definition StatusProceeding :: int where "StatusProceeding = 1"
definition StatusRinging :: int where "StatusRinging = 2"
definition StatusAnswered :: int where "StatusAnswered = 3"
definition StatusHangup :: int where "StatusHangup = 4"
definition StatusFailed :: int where "StatusFailed = 5"

text \<open>The values that the dialog puts on its error channel.\<close>

datatype DialogError =
    ErrNoContactIn2xx
  | ErrAckNotSent SendError
  | ErrResponse SipMsg
  | ErrRemoteLoop
  | ErrFailedToContact string
  | ErrRoute SendError
  | ErrRouteAddress

text \<open>
  \<open>dls.request\<close> points either at the INVITE that \<open>dls.invite\<close> points at, or at a BYE
  that \<open>hangup\<close> built. The two objects are the fields \<open>invite\<close> and \<open>byeMsg\<close>; \<open>request\<close>
  says which of them (if any) is the current request, so that a change made through one
  pointer is seen through the other. A timer field is \<open>True\<close> for an armed channel and
  \<open>False\<close> for nil. A channel to the application is the list of the values sent on it;
  \<open>world\<close> is the socket reached through \<open>dls.manager\<close>. \<open>sentOnRoute\<close> is not a field of
  the source: it counts the datagrams that carried the current request since \<open>popRoute\<close>
  last selected a route, and no function reads it.
\<close>

datatype ReqRef = RefInvite | RefBye

record dialogState =
  state :: int
  callID :: string
  dest :: string
  addr :: string
  routes :: "string list"
  invite :: SipMsg
  byeMsg :: SipMsg
  remote :: "SipMsg option"
  request :: "ReqRef option"
  requestResends :: int
  requestTimer :: bool
  response :: "SipMsg option"
  responseResends :: int
  responseTimer :: bool
  lSeq :: int
  rSeq :: int
  errChan :: "DialogError list"
  stateChan :: "int list"
  peerChan :: "SDP list"
  world :: World
  sentOnRoute :: nat

text \<open>What a method of the dialog returns: \<open>true\<close> (\<open>Continue\<close>) or \<open>false\<close> (\<open>Stop\<close>)
  with the state it leaves, or a Go panic.\<close>

datatype Outcome = Crashed GoPanic | Continue dialogState | Stop dialogState

definition getRequest :: "dialogState \<Rightarrow> SipMsg option" where
  "getRequest s =
     (case request s of None \<Rightarrow> None | Some RefInvite \<Rightarrow> Some (invite s)
      | Some RefBye \<Rightarrow> Some (byeMsg s))"

definition putRequest :: "SipMsg \<Rightarrow> dialogState \<Rightarrow> dialogState" where
  "putRequest msg s =
     (case request s of None \<Rightarrow> s | Some RefInvite \<Rightarrow> s \<lparr> invite := msg \<rparr>
      | Some RefBye \<Rightarrow> s \<lparr> byeMsg := msg \<rparr>)"

definition transition :: "int \<Rightarrow> dialogState \<Rightarrow> dialogState" where
  "transition st s = s \<lparr> state := st, stateChan := stateChan s @ [st] \<rparr>"

definition checkSDP :: "SipMsg \<Rightarrow> dialogState \<Rightarrow> dialogState" where
  "checkSDP msg s =
     (case Payload msg of SdpPayload p \<Rightarrow> s \<lparr> peerChan := peerChan s @ [p] \<rparr> | _ \<Rightarrow> s)"

definition errSend :: "DialogError \<Rightarrow> dialogState \<Rightarrow> dialogState" where
  "errSend e s = s \<lparr> errChan := errChan s @ [e] \<rparr>"

text \<open>\<open>dls.manager.Send(msg)\<close>: the socket of the dialog's world is the one written.\<close>

definition sendVia ::
  "Manager \<Rightarrow> Env \<Rightarrow> SipMsg \<Rightarrow> dialogState \<Rightarrow> SendError option \<times> SipMsg \<times> dialogState" where
  "sendVia m env msg s =
     (case Send m env (world s) msg of (e, msg', w') \<Rightarrow> (e, msg', s \<lparr> world := w' \<rparr>))"

text \<open>The recurring \<open>if err := Send(NewResponse(msg, status)); err != nil { return false }\<close>.\<close>

definition reply :: "Manager \<Rightarrow> Env \<Rightarrow> SipMsg \<Rightarrow> int \<Rightarrow> dialogState \<Rightarrow> Outcome" where
  "reply m env msg status s =
     (case sendVia m env (NewResponse m msg status) s of
        (None, _, s') \<Rightarrow> Continue s'
      | (Some (Panicked p), _, _) \<Rightarrow> Crashed p
      | (Some e, _, s') \<Rightarrow> Stop s')"

subsection \<open>populate\<close>

fun Param_Set :: "string \<Rightarrow> string \<Rightarrow> Param \<Rightarrow> Param" where
  "Param_Set name val [] = []"
| "Param_Set name val ((n, v) # ps) =
     (if n = name then (n, val) # ps else (n, v) # Param_Set name val ps)"

definition populateOwnVia :: "Manager \<Rightarrow> SipMsg \<Rightarrow> SipMsg" where
  "populateOwnVia m msg =
     (if Via msg = []
      then msg \<lparr> Via := [\<lparr> Via_Host = PublicAddress m, Via_Port = 0, Via_Param = [] \<rparr>] \<rparr>
      else msg)"

definition populateViaPort :: "Manager \<Rightarrow> SipMsg \<Rightarrow> SipMsg" where
  "populateViaPort m msg =
     msg \<lparr> Via := (hd (Via msg)) \<lparr> Via_Port := PublicPort m \<rparr> # tl (Via msg) \<rparr>"

definition populateNewBranch :: "Env \<Rightarrow> nat \<Rightarrow> SipMsg \<Rightarrow> SipMsg" where
  "populateNewBranch env t msg =
     (if Param_Get ''branch'' (Via_Param (hd (Via msg))) \<noteq> None
      then msg \<lparr> Via := (hd (Via msg))
                 \<lparr> Via_Param := Param_Set ''branch'' (GenerateBranch env t) (Via_Param (hd (Via msg))) \<rparr>
                 # tl (Via msg) \<rparr>
      else msg \<lparr> Via := pushParam ''branch'' (GenerateBranch env t) (Via msg) \<rparr>)"

definition populateOwnContact :: "Manager \<Rightarrow> SipMsg \<Rightarrow> SipMsg" where
  "populateOwnContact m msg =
     (if Contact msg = []
      then msg \<lparr> Contact := [\<lparr> Addr_Uri = Some \<lparr> URI_Scheme = ''sip'', URI_User = [],
                                  URI_Host = PublicAddress m, URI_Port = 0, URI_Param = [] \<rparr>,
                                Addr_Display = [], Addr_Param = [] \<rparr>] \<rparr>
      else msg)"

definition populateContactUri :: "Manager \<Rightarrow> SipURI \<Rightarrow> SipURI" where
  "populateContactUri m u =
     (if Param_Get ''transport'' (URI_Param u) = None
      then u \<lparr> URI_Port := PublicPort m, URI_Param := (''transport'', ''udp'') # URI_Param u \<rparr>
      else u \<lparr> URI_Port := PublicPort m \<rparr>)"

definition populateSDP :: "Manager \<Rightarrow> Env \<Rightarrow> nat \<Rightarrow> SDP \<Rightarrow> GoPanic + SDP" where
  "populateSDP m env t ms =
     (case SDP_Origin ms of
        None \<Rightarrow> Inl NilPointer
      | Some orig \<Rightarrow>
          Inr (ms \<lparr> SDP_Addr := (if SDP_Addr ms = [] then PublicAddress m else SDP_Addr ms),
                    SDP_Origin := Some (orig
                      \<lparr> Origin_Addr := (if Origin_Addr orig = [] then PublicAddress m
                                        else Origin_Addr orig),
                        Origin_ID := (if Origin_ID orig = [] then GenerateOriginID env t
                                      else Origin_ID orig) \<rparr>) \<rparr>))"

definition populate :: "Manager \<Rightarrow> Env \<Rightarrow> nat \<Rightarrow> SipMsg \<Rightarrow> GoPanic + SipMsg" where
  "populate m env t msg =
     (case Addr_Uri (hd (Contact (populateOwnContact m msg))) of
        None \<Rightarrow> Inl NilPointer
      | Some u \<Rightarrow>
          (case (if Method msg = MethodInvite
                 then (case Payload msg of
                         SdpPayload ms \<Rightarrow> map_sum id SdpPayload (populateSDP m env t ms)
                       | pl \<Rightarrow> Inr pl)
                 else Inr (Payload msg)) of
             Inl p \<Rightarrow> Inl p
           | Inr pl \<Rightarrow>
               PopulateMessage m env t None None
                 ((populateOwnContact m
                     (populateNewBranch env t (populateViaPort m (populateOwnVia m msg))))
                    \<lparr> Contact := (hd (Contact (populateOwnContact m msg)))
                                   \<lparr> Addr_Uri := Some (populateContactUri m u) \<rparr>
                                 # tl (Contact (populateOwnContact m msg)),
                      Payload := pl \<rparr>)))"

subsection \<open>Routes\<close>

text \<open>Modelled from the spec: \<open>util.Or5060\<close> and \<open>util.Portstr\<close> are not under src/; a
  zero port stands for 5060 and a port is written in decimal. \<open>net.JoinHostPort\<close>
  brackets a host that contains a colon.\<close>

definition Or5060 :: "16 word \<Rightarrow> 16 word" where
  "Or5060 port = (if port = 0 then 5060 else port)"

definition Portstr :: "16 word \<Rightarrow> string" where
  "Portstr port = FormatUint (unat port)"

definition JoinHostPort :: "string \<Rightarrow> string \<Rightarrow> string" where
  "JoinHostPort host port =
     (if CHR '':'' \<in> set host then ''['' @ host @ '']:'' @ port else host @ '':'' @ port)"

definition RouteAddress ::
  "Manager \<Rightarrow> Env \<Rightarrow> nat \<Rightarrow> string \<Rightarrow> 16 word \<Rightarrow> bool \<Rightarrow> string list option" where
  "RouteAddress m env t host port wantSRV =
     (if ParseIP_ok env host then Some [JoinHostPort host (Portstr (Or5060 port))]
      else if port = 0 \<and> wantSRV \<and>
              (case LookupSRV env t host of None \<Rightarrow> False | Some srvs \<Rightarrow> srvs \<noteq> [])
      then Some (map (\<lambda>(target, p). JoinHostPort target (Portstr p)) (the (LookupSRV env t host)))
      else (case ResolveUDPAddr env t host (Portstr (Or5060 port)) of
              None \<Rightarrow> None
            | Some a \<Rightarrow> Some [a]))"

text \<open>\<open>connect\<close> always succeeds, so \<open>popRoute\<close> never takes its recursive branch.\<close>

definition connect :: "dialogState \<Rightarrow> bool" where
  "connect s = True"

definition popRoute :: "Manager \<Rightarrow> Env \<Rightarrow> dialogState \<Rightarrow> Outcome" where
  "popRoute m env s =
     (case routes s of
        [] \<Rightarrow> Stop (errSend (ErrFailedToContact (dest s)) s)
      | a # rest \<Rightarrow>
          (case getRequest s of
             None \<Rightarrow> Crashed NilPointer
           | Some req \<Rightarrow>
               (case populate m env (tick (world s)) req of
                  Inl p \<Rightarrow> Crashed p
                | Inr req1 \<Rightarrow>
                    (case sendVia m env req1
                            ((if state s < StatusAnswered
                              then s \<lparr> rSeq := 0, remote := None, lSeq := CSeq req1 \<rparr> else s)
                               \<lparr> addr := a, routes := rest, requestResends := 0,
                                 requestTimer := True, sentOnRoute := 0 \<rparr>) of
                       (None, req2, s') \<Rightarrow> Continue (putRequest req2 (s' \<lparr> sentOnRoute := 1 \<rparr>))
                     | (Some (Panicked p), _, _) \<Rightarrow> Crashed p
                     | (Some e, req2, s') \<Rightarrow> Stop (putRequest req2 s')))))"

text \<open>\<open>sendRequest(request)\<close>: \<open>ref\<close> says whether the argument is the INVITE object or a
  new BYE, \<open>msg\<close> is the object it points at.\<close>

definition sendRequest :: "Manager \<Rightarrow> Env \<Rightarrow> ReqRef \<Rightarrow> SipMsg \<Rightarrow> dialogState \<Rightarrow> Outcome" where
  "sendRequest m env ref msg s =
     (case RouteMessage None None msg of
        (Some (Panicked p), _, _, _) \<Rightarrow> Crashed p
      | (Some e, _, _, msg') \<Rightarrow>
          Stop (errSend (ErrRoute e) (if ref = RefInvite then s \<lparr> invite := msg' \<rparr> else s))
      | (None, host, port, msg') \<Rightarrow>
          (case RouteAddress m env (tick (world s)) host port (state s < StatusAnswered) of
             None \<Rightarrow>
               Stop (errSend ErrRouteAddress (if ref = RefInvite then s \<lparr> invite := msg' \<rparr> else s))
           | Some rs \<Rightarrow>
               popRoute m env
                 ((if ref = RefInvite then s \<lparr> invite := msg' \<rparr> else s \<lparr> byeMsg := msg' \<rparr>)
                    \<lparr> request := Some ref, routes := rs, dest := host \<rparr>)))"

subsection \<open>Incoming messages\<close>

text \<open>The first part of \<open>handleResponse\<close>: a final response to an INVITE is ACKed, and
  needs a Contact for that.\<close>

definition ackFinal :: "Manager \<Rightarrow> Env \<Rightarrow> SipMsg \<Rightarrow> SipMsg \<Rightarrow> dialogState \<Rightarrow> Outcome" where
  "ackFinal m env req msg s =
     (if Status msg \<ge> sip_StatusOK \<and> Method req = MethodInvite then
        (case NewAck m msg req of
           Inl p \<Rightarrow> Stop (errSend ErrNoContactIn2xx s)
         | Inr ack \<Rightarrow>
             (case sendVia m env ack s of
                (None, _, s') \<Rightarrow> Continue s'
              | (Some (Panicked p), _, _) \<Rightarrow> Crashed p
              | (Some e, _, s') \<Rightarrow> Stop (errSend (ErrAckNotSent e) s')))
      else Continue s)"

text \<open>The \<open>switch msg.Status\<close> of \<open>handleResponse\<close>, entered with the routes and the
  resend timer of the request cleared.\<close>

definition onStatus :: "Manager \<Rightarrow> Env \<Rightarrow> SipMsg \<Rightarrow> dialogState \<Rightarrow> Outcome" where
  "onStatus m env msg s =
     (if Status msg = sip_StatusTrying then Continue (transition StatusProceeding s)
      else if Status msg = sip_StatusRinging \<or> Status msg = sip_StatusSessionProgress
      then Continue (transition StatusRinging s)
      else if Status msg = sip_StatusOK then
        (if CSeqMethod msg = MethodInvite
         then Continue ((if remote s = None then transition StatusAnswered s else s)
                          \<lparr> remote := Some msg \<rparr>)
         else if CSeqMethod msg = MethodBye \<or> CSeqMethod msg = MethodCancel
         then Stop (transition StatusHangup s)
         else Continue s)
      else if Status msg = sip_StatusServiceUnavailable then
        (if request s = Some RefInvite then popRoute m env s
         else Stop (errSend (ErrResponse msg) s))
      else if Status msg = sip_StatusMovedPermanently \<or> Status msg = sip_StatusMovedTemporarily
      then
        (case Contact msg of
           [] \<Rightarrow> Crashed NilPointer
         | c # _ \<Rightarrow>
             sendRequest m env RefInvite ((invite s) \<lparr> Request := Addr_Uri c, Route := [] \<rparr>) s)
      else if Status msg > sip_StatusOK then Stop (errSend (ErrResponse msg) s)
      else Continue s)"

definition handleResponse :: "Manager \<Rightarrow> Env \<Rightarrow> SipMsg \<Rightarrow> dialogState \<Rightarrow> Outcome" where
  "handleResponse m env msg s =
     (case getRequest s of
        None \<Rightarrow> Crashed NilPointer
      | Some req \<Rightarrow>
          if \<not> ResponseMatch req msg then Continue s
          else
            (case ackFinal m env req msg s of
               Continue s1 \<Rightarrow>
                 onStatus m env msg
                   ((if Status msg \<le> sip_StatusOK then checkSDP msg s1 else s1)
                      \<lparr> routes := [], requestTimer := False \<rparr>)
             | out \<Rightarrow> out))"

text \<open>\<open>sendResponse\<close> keeps the response for resending and sends it.\<close>

definition sendResponse :: "Manager \<Rightarrow> Env \<Rightarrow> SipMsg \<Rightarrow> dialogState \<Rightarrow> Outcome" where
  "sendResponse m env msg s =
     (case sendVia m env msg
             (s \<lparr> response := Some msg, responseResends := 0, responseTimer := True \<rparr>) of
        (None, msg', s') \<Rightarrow> Continue (s' \<lparr> response := Some msg' \<rparr>)
      | (Some (Panicked p), _, _) \<Rightarrow> Crashed p
      | (Some e, msg', s') \<Rightarrow> Stop (s' \<lparr> response := Some msg' \<rparr>))"

text \<open>The \<open>switch msg.Method\<close> of \<open>handleRequest\<close>.\<close>

definition onMethod :: "Manager \<Rightarrow> Env \<Rightarrow> SipMsg \<Rightarrow> dialogState \<Rightarrow> Outcome" where
  "onMethod m env msg s =
     (if Method msg = MethodBye then
        (case reply m env msg sip_StatusOK s of
           Continue s' \<Rightarrow> Stop (transition StatusHangup s')
         | out \<Rightarrow> out)
      else if Method msg = MethodOptions then reply m env msg sip_StatusOK s
      else if Method msg = MethodInvite then
        sendResponse m env (NewResponse m msg sip_StatusOK)
          (checkSDP msg (s \<lparr> remote := Some msg \<rparr>))
      else if Method msg = MethodAck
      then Continue (s \<lparr> response := None, responseTimer := False \<rparr>)
      else reply m env msg sip_StatusMethodNotAllowed s)"

definition handleRequest :: "Manager \<Rightarrow> Env \<Rightarrow> SipMsg \<Rightarrow> dialogState \<Rightarrow> Outcome" where
  "handleRequest m env msg s =
     (if MaxForwards msg \<le> 0 then
        (case reply m env msg sip_StatusTooManyHops s of
           Continue s' \<Rightarrow> Stop (errSend ErrRemoteLoop s')
         | out \<Rightarrow> out)
      else if rSeq s = 0 then onMethod m env msg (s \<lparr> rSeq := CSeq msg \<rparr>)
      else if CSeq msg < rSeq s then reply m env msg sip_StatusInternalServerError s
      else onMethod m env msg (s \<lparr> rSeq := CSeq msg \<rparr>))"

subsection \<open>Timers and hangup\<close>

definition resendRequest :: "Manager \<Rightarrow> Env \<Rightarrow> dialogState \<Rightarrow> Outcome" where
  "resendRequest m env s =
     (case getRequest s of
        None \<Rightarrow> Continue s
      | Some req \<Rightarrow>
          if \<not> requestTimer s then Continue s
          else if requestResends s < maxResends m then
            (case sendVia m env req s of
               (None, req', s') \<Rightarrow>
                 Continue (putRequest req'
                   (s' \<lparr> requestResends := requestResends s + 1, requestTimer := True,
                         sentOnRoute := Suc (sentOnRoute s) \<rparr>))
             | (Some (Panicked p), _, _) \<Rightarrow> Crashed p
             | (Some e, req', s') \<Rightarrow> Stop (putRequest req' s'))
          else popRoute m env s)"

definition resendResponse :: "Manager \<Rightarrow> Env \<Rightarrow> dialogState \<Rightarrow> Outcome" where
  "resendResponse m env s =
     (case response s of
        None \<Rightarrow> Continue s
      | Some rsp \<Rightarrow>
          if \<not> responseTimer s then Continue s
          else if responseResends s < maxResends m then
            (case sendVia m env rsp s of
               (None, rsp', s') \<Rightarrow>
                 Continue (s' \<lparr> response := Some rsp', responseResends := responseResends s + 1,
                                responseTimer := True \<rparr>)
             | (Some (Panicked p), _, _) \<Rightarrow> Crashed p
             | (Some e, rsp', s') \<Rightarrow> Stop (s' \<lparr> response := Some rsp' \<rparr>))
          else popRoute m env s)"

definition hangup :: "Manager \<Rightarrow> Env \<Rightarrow> dialogState \<Rightarrow> Outcome" where
  "hangup m env s =
     (if state s = StatusProceeding \<or> state s = StatusRinging then
        (case sendVia m env (NewCancel m (invite s)) s of
           (None, _, s') \<Rightarrow> Continue s'
         | (Some (Panicked p), _, _) \<Rightarrow> Crashed p
         | (Some e, _, s') \<Rightarrow> Stop s')
      else if state s = StatusAnswered then
        (case NewBye m (invite s) (remote s) (lSeq s) of
           Inl p \<Rightarrow> Crashed p
         | Inr (bye, l) \<Rightarrow> sendRequest m env RefBye bye (s \<lparr> lSeq := l \<rparr>))
      else if state s = StatusHangup then Continue s
      else Stop (transition StatusHangup s))"

subsection \<open>The dialog task and the receive path\<close>

text \<open>
  One dialog in its manager. \<open>alive\<close>: the task \<open>run\<close> has not returned, so the dialog
  is in the registry (\<open>cleanup\<close> removes it). \<open>crashed\<close>: a panic ended the process.
  \<open>hangupDone\<close> is the flag of the \<open>Dialog\<close> handle; \<open>hangupClosed\<close> says that the hangup
  channel has been closed, after which a receive from it never blocks.
\<close>

record System =
  dls :: dialogState
  alive :: bool
  crashed :: bool
  hangupDone :: bool
  hangupClosed :: bool

text \<open>What can happen to the dialog: the task starts (the first \<open>sendRequest\<close> of
  \<open>run\<close>), a datagram is dispatched by \<open>HandleIncomingMessage\<close>, or the \<open>select\<close> of
  \<open>run\<close> takes one of its three cases.\<close>

datatype Event = Start | Incoming SipMsg | RequestTimer | ResponseTimer | HangupSignal

text \<open>The end of one pass of the \<open>for\<close> loop of \<open>run\<close>: the task returns, and \<open>cleanup\<close>
  runs, when the method returned \<open>false\<close> or the state is at least \<open>StatusHangup\<close>.\<close>

definition afterSelect :: "System \<Rightarrow> Outcome \<Rightarrow> System" where
  "afterSelect sys out =
     (case out of
        Crashed p \<Rightarrow> sys \<lparr> crashed := True \<rparr>
      | Stop s \<Rightarrow> sys \<lparr> dls := s, alive := False \<rparr>
      | Continue s \<Rightarrow> sys \<lparr> dls := s, alive := (state s < StatusHangup) \<rparr>)"

text \<open>\<open>HandleIncomingMessage\<close> drops what the handler returns.\<close>

definition afterDispatch :: "System \<Rightarrow> Outcome \<Rightarrow> System" where
  "afterDispatch sys out =
     (case out of
        Crashed p \<Rightarrow> sys \<lparr> crashed := True \<rparr>
      | Stop s \<Rightarrow> sys \<lparr> dls := s \<rparr>
      | Continue s \<Rightarrow> sys \<lparr> dls := s \<rparr>)"

definition HandleIncomingMessage :: "Manager \<Rightarrow> Env \<Rightarrow> SipMsg \<Rightarrow> System \<Rightarrow> System" where
  "HandleIncomingMessage m env msg sys =
     (if VersionMajor msg \<noteq> 2 \<or> VersionMinor msg \<noteq> 0
      then afterDispatch sys
             (case reply m env msg sip_StatusVersionNotSupported (dls sys) of
                Stop s \<Rightarrow> Continue s | out \<Rightarrow> out)
      else if alive sys \<and> CallID msg = callID (dls sys)
      then afterDispatch sys
             (if IsResponse msg then handleResponse m env msg (dls sys)
              else handleRequest m env msg (dls sys))
      else afterDispatch sys
             (case reply m env msg sip_StatusCallTransactionDoesNotExist (dls sys) of
                Stop s \<Rightarrow> Continue s | out \<Rightarrow> out))"

text \<open>Which cases of the \<open>select\<close> can be taken: a timer case needs its channel to be
  non-nil, the hangup case a closed channel (an open one is served inside \<open>Hangup\<close>).\<close>

definition ready :: "System \<Rightarrow> Event \<Rightarrow> bool" where
  "ready sys ev =
     (alive sys \<and> \<not> crashed sys \<and>
      (case ev of
         RequestTimer \<Rightarrow> requestTimer (dls sys)
       | ResponseTimer \<Rightarrow> responseTimer (dls sys)
       | HangupSignal \<Rightarrow> hangupClosed sys
       | _ \<Rightarrow> False))"

definition step :: "Manager \<Rightarrow> Env \<Rightarrow> Event \<Rightarrow> System \<Rightarrow> System" where
  "step m env ev sys =
     (if crashed sys then sys
      else case ev of
        Incoming msg \<Rightarrow> HandleIncomingMessage m env msg sys
      | Start \<Rightarrow>
          (if alive sys
           then (case sendRequest m env RefInvite (invite (dls sys)) (dls sys) of
                   Crashed p \<Rightarrow> sys \<lparr> crashed := True \<rparr>
                 | Stop s \<Rightarrow> sys \<lparr> dls := s, alive := False \<rparr>
                 | Continue s \<Rightarrow> sys \<lparr> dls := s \<rparr>)
           else sys)
      | RequestTimer \<Rightarrow>
          (if alive sys then afterSelect sys (resendRequest m env (dls sys)) else sys)
      | ResponseTimer \<Rightarrow>
          (if alive sys then afterSelect sys (resendResponse m env (dls sys)) else sys)
      | HangupSignal \<Rightarrow>
          (if alive sys then afterSelect sys (hangup m env (dls sys)) else sys))"

fun run :: "Manager \<Rightarrow> Env \<Rightarrow> Event list \<Rightarrow> System \<Rightarrow> System" where
  "run m env [] sys = sys"
| "run m env (ev # evs) sys = run m env evs (step m env ev sys)"

text \<open>
  \<open>Dialog.Hangup\<close>. The first call sends on the unbuffered channel, which completes when
  the \<open>select\<close> of \<open>run\<close> takes the hangup case, and then closes the channel; with no
  task left to receive, the send never completes. Later calls return at once.
\<close>

definition Dialog_Hangup :: "Manager \<Rightarrow> Env \<Rightarrow> System \<Rightarrow> System" where
  "Dialog_Hangup m env sys =
     (if hangupDone sys \<or> crashed sys then sys
      else if \<not> alive sys then sys \<lparr> hangupDone := True \<rparr>
      else (step m env HangupSignal (sys \<lparr> hangupDone := True \<rparr>)) \<lparr> hangupClosed := True \<rparr>)"

text \<open>\<open>NewDialog\<close>: the dialog as it is registered, before its task has run.\<close>

definition NewDialog :: "Manager \<Rightarrow> Env \<Rightarrow> World \<Rightarrow> SipMsg \<Rightarrow> System" where
  "NewDialog m env w inv0 =
     \<lparr> dls = \<lparr> state = 0,
               callID = (if CallID inv0 = [] then GenerateCallID env (tick w) else CallID inv0),
               dest = [], addr = [], routes = [],
               invite = inv0 \<lparr> CallID := (if CallID inv0 = [] then GenerateCallID env (tick w)
                                          else CallID inv0) \<rparr>,
               byeMsg = Msg0, remote = None, request = None, requestResends = 0,
               requestTimer = False, response = None, responseResends = 0,
               responseTimer = False, lSeq = 0, rSeq = 0, errChan = [], stateChan = [],
               peerChan = [], world = w \<lparr> tick := Suc (tick w) \<rparr>, sentOnRoute = 0 \<rparr>,
       alive = True, crashed = False, hangupDone = False, hangupClosed = False \<rparr>"

section \<open>Concrete messages used as test inputs\<close>

definition mgr_proxy :: Manager where
  "mgr_proxy = \<lparr> maxResends = 2, timestampTagging = False, userAgent = ''sipmanager/1.0'',
     proxyAddress = Some ''192.0.2.50:5060'', allowReinvite = False,
     m_contact = \<lparr> Addr_Uri = Some \<lparr> URI_Scheme = [], URI_User = [], URI_Host = ''10.0.0.1'',
                                     URI_Port = 5060, URI_Param = [(''transport'', ''udp'')] \<rparr>,
                   Addr_Display = [], Addr_Param = [] \<rparr>,
     m_via = \<lparr> Via_Host = ''10.0.0.1'', Via_Port = 5060, Via_Param = [] \<rparr>,
     PublicAddress = ''10.0.0.1'', PublicPort = 5060 \<rparr>"

definition mgr_direct :: Manager where
  "mgr_direct = mgr_proxy \<lparr> proxyAddress := None \<rparr>"

definition env0 :: Env where
  "env0 = \<lparr> GenerateCallID = (\<lambda>t. ''generated-call-id''), GenerateCSeq = (\<lambda>t. 1),
     GenerateBranch = (\<lambda>t. ''z9hG4bKgen''), GenerateTag = (\<lambda>t. ''gentag''),
     GenerateOriginID = (\<lambda>t. ''1''), UnixMicro = (\<lambda>t. 0),
     ResolveUDPAddr = (\<lambda>t host port. Some (host @ '':'' @ port)),
     WriteToUDP_fails = (\<lambda>t. False), ParseIP_ok = (\<lambda>h. True),
     LookupSRV = (\<lambda>t h. None) \<rparr>"

definition world0 :: World where
  "world0 = \<lparr> tick = 0, wire = [] \<rparr>"

definition via_a :: SipVia where
  "via_a = \<lparr> Via_Host = ''10.0.0.1'', Via_Port = 5060, Via_Param = [(''branch'', ''z9hG4bK1'')] \<rparr>"

definition via_b :: SipVia where
  "via_b = \<lparr> Via_Host = ''10.0.0.2'', Via_Port = 5070, Via_Param = [(''branch'', ''z9hG4bK2'')] \<rparr>"

definition uri_peer :: SipURI where
  "uri_peer = \<lparr> URI_Scheme = ''sip'', URI_User = ''bob'', URI_Host = ''10.0.0.9'', URI_Port = 5060,
     URI_Param = [] \<rparr>"

definition addr_peer :: SipAddr where
  "addr_peer = \<lparr> Addr_Uri = Some uri_peer, Addr_Display = [], Addr_Param = [] \<rparr>"

definition addr_proxy1 :: SipAddr where
  "addr_proxy1 = \<lparr> Addr_Uri = Some (uri_peer \<lparr> URI_Host := ''10.0.0.7'' \<rparr>), Addr_Display = [],
     Addr_Param = [] \<rparr>"

definition addr_proxy2 :: SipAddr where
  "addr_proxy2 = \<lparr> Addr_Uri = Some (uri_peer \<lparr> URI_Host := ''10.0.0.8'' \<rparr>), Addr_Display = [],
     Addr_Param = [] \<rparr>"

definition invite_a :: SipMsg where
  "invite_a = Msg0 \<lparr> Method := MethodInvite, Request := Some uri_peer, Via := [via_a],
     CallID := ''call-1'', CSeq := 7, CSeqMethod := MethodInvite, MaxForwards := 70,
     Authorization := ''Digest a'', ProxyAuthorization := ''Digest p'' \<rparr>"

definition ok_single :: SipMsg where
  "ok_single = Msg0 \<lparr> Status := 200, Phrase := ''OK'', Via := [via_a], CallID := ''call-1'',
     CSeq := 7, CSeqMethod := MethodInvite, Contact := [addr_peer],
     RecordRoute := [addr_proxy1, addr_proxy2] \<rparr>"

definition ok_two_vias :: SipMsg where
  "ok_two_vias = ok_single \<lparr> Via := [via_b, via_a] \<rparr>"

definition register_routed :: SipMsg where
  "register_routed = Msg0 \<lparr> Method := ''REGISTER'', Request := Some uri_peer, Via := [via_a],
     From := [addr_peer], To := [addr_peer], CallID := ''call-2'', CSeq := 1,
     CSeqMethod := ''REGISTER'', Contact := [addr_peer], Route := [addr_proxy1],
     MaxForwards := 1 \<rparr>"

definition options_last_hop :: SipMsg where
  "options_last_hop = Msg0 \<lparr> Method := ''OPTIONS'', Request := Some uri_peer, Via := [via_a],
     From := [addr_peer], To := [addr_peer], CallID := ''call-3'', CSeq := 1,
     CSeqMethod := ''OPTIONS'', Contact := [addr_peer], MaxForwards := 1 \<rparr>"

section \<open>Predicates of the Send statements\<close>

text \<open>\<open>Send\<close> reaches its hop count: populating the message did not panic, and either a
  proxy is configured or \<open>RouteMessage\<close> and the resolver both returned without error.\<close>

definition destinationChosen :: "Manager \<Rightarrow> Env \<Rightarrow> World \<Rightarrow> SipMsg \<Rightarrow> bool" where
  "destinationChosen m env w msg =
     (case PopulateMessage m env (tick w) (Some (m_via m)) (Some (m_contact m)) msg of
        Inl p \<Rightarrow> False
      | Inr m1 \<Rightarrow>
          (case proxyAddress m of
             Some a \<Rightarrow> True
           | None \<Rightarrow>
               (case RouteMessage (Some (m_via m)) (Some (m_contact m)) m1 of
                  (Some e, _, _, _) \<Rightarrow> False
                | (None, host, port, _) \<Rightarrow>
                    ResolveUDPAddr env (tick w) host (Itoa (uint port)) \<noteq> None)))"

section \<open>Predicates and inputs of the SDP statements\<close>

text \<open>A text made of the given lines, each followed by CR LF.\<close>

definition crlfLines :: "string list \<Rightarrow> string" where
  "crlfLines ls = concat (map (\<lambda>l. l @ CRLF) ls)"

text \<open>
  Modelled from the spec: a sample of the \<open>StandardCodecs\<close> table (which is not under
  src/) with the entries that the spec and the tests name; it only instantiates theorems
  at concrete inputs.
\<close>

definition iana_tab :: CodecTable where
  "iana_tab pt =
     (if pt = 0 then Some (Codec0 \<lparr> Codec_PT := 0, Codec_Name := ''PCMU'', Codec_Rate := 8000 \<rparr>)
      else if pt = 3 then Some (Codec0 \<lparr> Codec_PT := 3, Codec_Name := ''GSM'', Codec_Rate := 8000 \<rparr>)
      else if pt = 4 then Some (Codec0 \<lparr> Codec_PT := 4, Codec_Name := ''G723'', Codec_Rate := 8000 \<rparr>)
      else if pt = 8 then Some (Codec0 \<lparr> Codec_PT := 8, Codec_Name := ''PCMA'', Codec_Rate := 8000 \<rparr>)
      else if pt = 9 then Some (Codec0 \<lparr> Codec_PT := 9, Codec_Name := ''G722'', Codec_Rate := 8000 \<rparr>)
      else if pt = 18 then Some (Codec0 \<lparr> Codec_PT := 18, Codec_Name := ''G729'', Codec_Rate := 8000 \<rparr>)
      else if pt = 34 then Some (Codec0 \<lparr> Codec_PT := 34, Codec_Name := ''H263'', Codec_Rate := 90000 \<rparr>)
      else None)"

text \<open>An \<open>m=\<close> line (without its \<open>m=\<close>) that \<open>NewMediaFromLine\<close> reads as a disabled
  media: it passes the checks that come before the port test, and the port field, up to
  a \<open>/\<close>, converts to 0.\<close>

definition disabledMedia :: "bool \<Rightarrow> string \<Rightarrow> bool" where
  "disabledMedia strict mline =
     (length (Fields mline) \<ge> 4 \<and>
      (strict \<longrightarrow> snd (IsKnownMediaType (Fields mline ! 0))) \<and>
      ParseUint (Split (Fields mline ! 1) ''/'' ! 0) 16 = Inr 0)"

text \<open>The lines that the loop passes over while it skips a media description: an empty
  line, or a well-formed line of any type but \<open>s\<close>, \<open>t\<close>, \<open>m\<close> and \<open>o\<close> (so \<open>c=\<close>, \<open>a=\<close> and
  the unknown types).\<close>

definition skippedLine :: "string \<Rightarrow> bool" where
  "skippedLine l =
     (l = [] \<or> (length l \<ge> 3 \<and> l ! 1 = CHR ''='' \<and>
        l ! 0 \<noteq> CHR ''s'' \<and> l ! 0 \<noteq> CHR ''t'' \<and> l ! 0 \<noteq> CHR ''m'' \<and> l ! 0 \<noteq> CHR ''o''))"

definition isMediaLine :: "string \<Rightarrow> bool" where
  "isMediaLine l = (length l \<ge> 3 \<and> l ! 0 = CHR ''m'' \<and> l ! 1 = CHR ''='')"

definition sdp_text_no_conn :: string where
  "sdp_text_no_conn = crlfLines [''v=0'', ''o=- 1 1 IN IP4 1.2.3.4'',
     ''m=audio 5000 RTP/AVP 96'', ''a=rtpmap:96 opus/48000'']"

definition sdp_text_no_origin :: string where
  "sdp_text_no_origin = crlfLines [''v=0'', ''c=IN IP4 1.2.3.4'',
     ''m=audio 5000 RTP/AVP 96'', ''a=rtpmap:96 opus/48000'']"

definition avaya_head :: "string list" where
  "avaya_head = [''o=- 1688577024 2 IN IP4 10.50.109.100'', ''s=-'', ''c=IN IP4 192.0.2.12'',
     ''b=AS:64'', ''t=0 0'', ''m=audio 36568 RTP/AVP 0'', ''c=IN IP4 192.0.2.12'',
     ''a=sendrecv'', ''a=ptime:20'']"

definition avaya_video_body :: "string list" where
  "avaya_video_body = [''c=IN IP4 0.0.0.0'', ''a=inactive'', ''a=rtpmap:103 H264/90000'',
     ''a=ptime:20'']"

section \<open>Predicates and inputs of the dialog statements\<close>

text \<open>The state that a method of the dialog leaves behind, when it returns.\<close>

definition final :: "Outcome \<Rightarrow> dialogState option" where
  "final out = (case out of Crashed p \<Rightarrow> None | Continue s \<Rightarrow> Some s | Stop s \<Rightarrow> Some s)"

text \<open>Responses to \<open>invite_a\<close> as the dialog of \<open>mgr_proxy\<close> sends it (the branch is the one
  that \<open>env0\<close> generates), and a request of the peer inside that dialog.\<close>

definition trying_a :: SipMsg where
  "trying_a = Msg0 \<lparr> VersionMajor := 2, Status := 100, Phrase := ''Trying'',
     Via := [via_a \<lparr> Via_Param := [(''branch'', ''z9hG4bKgen'')] \<rparr>], CallID := ''call-1'',
     CSeq := 7, CSeqMethod := MethodInvite \<rparr>"

definition ringing_a :: SipMsg where
  "ringing_a = trying_a \<lparr> Status := 180, Phrase := ''Ringing'' \<rparr>"

definition answer_a :: SipMsg where
  "answer_a = trying_a \<lparr> Status := 200, Phrase := ''OK'', Contact := [addr_peer] \<rparr>"

definition bye_a :: SipMsg where
  "bye_a = Msg0 \<lparr> VersionMajor := 2, Method := MethodBye, Request := Some uri_peer,
     Via := [via_b], From := [addr_peer], To := [addr_peer], CallID := ''call-1'',
     CSeq := 1, CSeqMethod := MethodBye, MaxForwards := 70 \<rparr>"

text \<open>Requests of the peer inside the dialog of \<open>invite_a\<close>, and that dialog after the
  answer and a first request with CSeq 5.\<close>

definition options_5 :: SipMsg where
  "options_5 = Msg0 \<lparr> VersionMajor := 2, Method := MethodOptions, Request := Some uri_peer,
     Via := [via_b], From := [addr_peer], To := [addr_peer], CallID := ''call-1'',
     CSeq := 5, CSeqMethod := MethodOptions, MaxForwards := 70 \<rparr>"

definition options_3 :: SipMsg where
  "options_3 = options_5 \<lparr> CSeq := 3 \<rparr>"

definition options_3_last_hop :: SipMsg where
  "options_3_last_hop = options_5 \<lparr> CSeq := 3, MaxForwards := 0 \<rparr>"

definition options_9_last_hop :: SipMsg where
  "options_9_last_hop = options_5 \<lparr> CSeq := 9, MaxForwards := 0 \<rparr>"

definition established :: System where
  "established = run mgr_proxy env0 [Start, Incoming answer_a, Incoming options_5]
     (NewDialog mgr_proxy env0 world0 invite_a)"


text \<open>From \<open>s\<close> to \<open>s'\<close> the counters of the request did not move, or a route was selected
  anew.\<close>

definition rerouted :: "dialogState \<Rightarrow> dialogState \<Rightarrow> bool" where
  "rerouted s s' =
     ((requestResends s' = requestResends s \<and> sentOnRoute s' = sentOnRoute s) \<or>
      (requestResends s' = 0 \<and> sentOnRoute s' \<le> 1))"


text \<open>
  The guards that the source puts in front of its calls of \<open>transition\<close>. \<open>ackSent\<close>: the
  first part of \<open>handleResponse\<close> went through (for a final response to the INVITE, the
  response has a Contact and the ACK was written). \<open>replySent\<close>: the reply was written.
  \<open>dispatched\<close>: \<open>HandleIncomingMessage\<close> hands the message to the dialog.
  \<open>byeAnswered\<close>: \<open>handleRequest\<close> reaches the \<open>transition\<close> of its BYE case.
\<close>

definition ackSent :: "Manager \<Rightarrow> Env \<Rightarrow> SipMsg \<Rightarrow> SipMsg \<Rightarrow> dialogState \<Rightarrow> bool" where
  "ackSent m env req msg s = (case ackFinal m env req msg s of Continue s1 \<Rightarrow> True | _ \<Rightarrow> False)"

definition replySent :: "Manager \<Rightarrow> Env \<Rightarrow> SipMsg \<Rightarrow> int \<Rightarrow> dialogState \<Rightarrow> bool" where
  "replySent m env msg st s = (case reply m env msg st s of Continue s1 \<Rightarrow> True | _ \<Rightarrow> False)"

text \<open>The \<open>switch msg.Status\<close> of \<open>handleResponse\<close>, reduced to the state it sets.\<close>

definition statusTransition :: "SipMsg \<Rightarrow> dialogState \<Rightarrow> int option" where
  "statusTransition msg s =
     (if Status msg = sip_StatusTrying then Some StatusProceeding
      else if Status msg = sip_StatusRinging \<or> Status msg = sip_StatusSessionProgress
      then Some StatusRinging
      else if Status msg = sip_StatusOK then
        (if CSeqMethod msg = MethodInvite
         then (if remote s = None then Some StatusAnswered else None)
         else if CSeqMethod msg = MethodBye \<or> CSeqMethod msg = MethodCancel
         then Some StatusHangup
         else None)
      else None)"

definition dispatched :: "System \<Rightarrow> SipMsg \<Rightarrow> bool" where
  "dispatched sys msg =
     (VersionMajor msg = 2 \<and> VersionMinor msg = 0 \<and> alive sys \<and> CallID msg = callID (dls sys))"

definition byeAnswered :: "Manager \<Rightarrow> Env \<Rightarrow> SipMsg \<Rightarrow> dialogState \<Rightarrow> bool" where
  "byeAnswered m env msg s =
     (0 < MaxForwards msg \<and> (rSeq s = 0 \<or> rSeq s \<le> CSeq msg) \<and> Method msg = MethodBye \<and>
      replySent m env msg sip_StatusOK (s \<lparr> rSeq := CSeq msg \<rparr>))"

text \<open>The state that an event sets, if it sets one: the calls of \<open>transition\<close> in
  \<open>handleResponse\<close>, \<open>handleRequest\<close> and \<open>hangup\<close>, each behind the guards that lead to it.
  Only the one of \<open>hangup\<close> looks at the current state.\<close>

definition transitionOf :: "Manager \<Rightarrow> Env \<Rightarrow> Event \<Rightarrow> System \<Rightarrow> int option" where
  "transitionOf m env ev sys =
     (if crashed sys then None
      else case ev of
        Incoming msg \<Rightarrow>
          (if dispatched sys msg then
             (if IsResponse msg then
                (case getRequest (dls sys) of
                   None \<Rightarrow> None
                 | Some req \<Rightarrow>
                     if ResponseMatch req msg \<and> ackSent m env req msg (dls sys)
                     then statusTransition msg (dls sys) else None)
              else if byeAnswered m env msg (dls sys) then Some StatusHangup else None)
           else None)
      | HangupSignal \<Rightarrow>
          (if alive sys \<and> state (dls sys) \<noteq> StatusProceeding \<and>
              state (dls sys) \<noteq> StatusRinging \<and> state (dls sys) \<noteq> StatusAnswered \<and>
              state (dls sys) \<noteq> StatusHangup
           then Some StatusHangup else None)
      | _ \<Rightarrow> None)"

text \<open>The dialog of \<open>invite_a\<close> after its 200 OK.\<close>

definition answered :: System where
  "answered = run mgr_proxy env0 [Start, Incoming answer_a]
     (NewDialog mgr_proxy env0 world0 invite_a)"

text \<open>The state of the dialog after a method: a panic leaves it as it was.\<close>

definition stateAfter :: "dialogState \<Rightarrow> Outcome \<Rightarrow> int" where
  "stateAfter s out = (case final out of None \<Rightarrow> state s | Some s' \<Rightarrow> state s')"

definition options_9 :: SipMsg where
  "options_9 = options_5 \<lparr> CSeq := 9 \<rparr>"




section \<open>Response matching\<close>

lemma Via_CompareHostPort_iff:
  "Via_CompareHostPort a b \<longleftrightarrow>
     (\<exists>x y. a = Some x \<and> b = Some y \<and> Via_Host x = Via_Host y \<and> Via_Port x = Via_Port y)"
  by (cases a; cases b) (simp_all add: Via_CompareHostPort_def)

lemma Via_CompareBranch_iff:
  "Via_CompareBranch a b \<longleftrightarrow>
     (\<exists>x y br. a = Some x \<and> b = Some y \<and> map_of (Via_Param x) ''branch'' = Some br \<and>
        map_of (Via_Param y) ''branch'' = Some br)"
  by (cases a; cases b)
     (auto simp: Via_CompareBranch_def Param_Get_def split: option.splits)

text \<open>
  C5 (as the code has it). A response matches the outstanding request exactly when it is
  a response, the CSeq numbers agree, its CSeqMethod is the request's method, and the
  LAST hop of its Via chain agrees with the request's first Via in host and port and
  carries the same \<open>branch\<close> parameter (both present). For a response with a single Via,
  the last hop is the topmost one and the rule is the spec's.
\<close>

theorem ResponseMatch_last_via:
  "(ResponseMatch req rsp \<longleftrightarrow>
      Status rsp > 0 \<and> CSeq rsp = CSeq req \<and> CSeqMethod rsp = Method req \<and>
      Via rsp \<noteq> [] \<and> Via req \<noteq> [] \<and>
      Via_Host (last (Via rsp)) = Via_Host (hd (Via req)) \<and>
      Via_Port (last (Via rsp)) = Via_Port (hd (Via req)) \<and>
      (\<exists>br. map_of (Via_Param (last (Via rsp))) ''branch'' = Some br \<and>
            map_of (Via_Param (hd (Via req))) ''branch'' = Some br))
   \<and> (length (Via rsp) \<le> 1 \<longrightarrow> ResponseMatch req rsp = ResponseMatch_spec req rsp)"
proof (intro conjI impI)
  show "ResponseMatch req rsp \<longleftrightarrow>
      Status rsp > 0 \<and> CSeq rsp = CSeq req \<and> CSeqMethod rsp = Method req \<and>
      Via rsp \<noteq> [] \<and> Via req \<noteq> [] \<and>
      Via_Host (last (Via rsp)) = Via_Host (hd (Via req)) \<and>
      Via_Port (last (Via rsp)) = Via_Port (hd (Via req)) \<and>
      (\<exists>br. map_of (Via_Param (last (Via rsp))) ''branch'' = Some br \<and>
            map_of (Via_Param (hd (Via req))) ''branch'' = Some br)"
    unfolding ResponseMatch_def IsResponse_def Via_CompareHostPort_iff Via_CompareBranch_iff
    by (cases "Via rsp"; cases "Via req") (auto simp: Via_Last_def Via_head_def)
next
  assume "length (Via rsp) \<le> 1"
  then have "Via_Last (Via rsp) = Via_head (Via rsp)"
    by (cases "Via rsp") (auto simp: Via_Last_def Via_head_def)
  then show "ResponseMatch req rsp = ResponseMatch_spec req rsp"
    by (simp add: ResponseMatch_def ResponseMatch_spec_def)
qed

theorem ResponseMatch_last_via_witness:
  "length (Via ok_single) \<le> 1 \<and> ResponseMatch invite_a ok_single \<and>
   ResponseMatch_spec invite_a ok_single"
proof -
  have len: "length (Via ok_single) \<le> 1"
    by (simp add: ok_single_def Msg0_def)
  have m: "ResponseMatch_spec invite_a ok_single"
    by (simp add: ResponseMatch_spec_def IsResponse_def Via_CompareHostPort_def
        Via_CompareBranch_def Via_head_def Param_Get_def ok_single_def invite_a_def Msg0_def
        via_a_def MethodInvite_def)
  from ResponseMatch_last_via [of invite_a ok_single] len m show ?thesis
    by blast
qed

text \<open>
  C5 as the spec words it fails: a response whose chain is \<open>[via_b, via_a]\<close> has a
  topmost Via that is not the request's, yet the code matches it on its last hop.
\<close>

theorem ResponseMatch_topmost_counterexample:
  "ResponseMatch invite_a ok_two_vias \<and> \<not> ResponseMatch_spec invite_a ok_two_vias"
  by (simp add: ResponseMatch_def ResponseMatch_spec_def IsResponse_def
      Via_CompareHostPort_def Via_CompareBranch_def Via_head_def Via_Last_def Param_Get_def
      ok_two_vias_def ok_single_def invite_a_def Msg0_def via_a_def via_b_def MethodInvite_def)

section \<open>The ACK for a 2xx response\<close>

text \<open>
  C6. For a response \<open>msg\<close> that matches the INVITE and carries a Contact, \<open>NewAck\<close>
  returns a request (status 0) with method and CSeqMethod ACK, the Contact's URI as
  Request-URI, exactly one Via hop (the response's first, detached from its chain), the
  INVITE's CSeq number, the response's Record-Route reversed as Route, and the INVITE's
  Authorization and Proxy-Authorization.
\<close>

theorem NewAck_fields:
  assumes "ResponseMatch inv0 msg"
    and "Contact msg = c # cs"
  shows "\<exists>ack. NewAck m msg inv0 = Inr ack \<and>
           \<not> IsResponse ack \<and>
           Method ack = ''ACK'' \<and> CSeqMethod ack = ''ACK'' \<and>
           Request ack = Addr_Uri c \<and>
           Via ack = [hd (Via msg)] \<and>
           CSeq ack = CSeq inv0 \<and>
           Route ack = rev (RecordRoute msg) \<and>
           Authorization ack = Authorization inv0 \<and>
           ProxyAuthorization ack = ProxyAuthorization inv0"
proof -
  from assms(1) have v: "Via msg \<noteq> []" and cs: "CSeq msg = CSeq inv0"
    by (auto simp: ResponseMatch_def Via_CompareHostPort_iff Via_Last_def split: if_splits)
  from v have d: "Via_Detach (Via msg) = [hd (Via msg)]"
    by (cases "Via msg") (simp_all add: Via_Detach_def)
  show ?thesis
    using assms(2) d cs
    by (simp add: NewAck_def Msg0_def IsResponse_def MethodAck_def Addr_Reversed_def)
qed

theorem NewAck_fields_witness:
  "ResponseMatch invite_a ok_two_vias \<and> Contact ok_two_vias = addr_peer # [] \<and>
   (\<exists>ack. NewAck mgr_proxy ok_two_vias invite_a = Inr ack \<and>
      Method ack = ''ACK'' \<and> Request ack = Some uri_peer \<and> Via ack = [via_b] \<and> CSeq ack = 7 \<and>
      Route ack = [addr_proxy2, addr_proxy1] \<and> Authorization ack = ''Digest a'' \<and>
      ProxyAuthorization ack = ''Digest p'')"
proof -
  have m: "ResponseMatch invite_a ok_two_vias"
    by (simp add: ResponseMatch_def IsResponse_def Via_CompareHostPort_def
        Via_CompareBranch_def Via_head_def Via_Last_def Param_Get_def
        ok_two_vias_def ok_single_def invite_a_def Msg0_def via_a_def via_b_def MethodInvite_def)
  have c: "Contact ok_two_vias = addr_peer # []"
    by (simp add: ok_two_vias_def ok_single_def Msg0_def)
  from NewAck_fields [OF m c, of mgr_proxy] m c show ?thesis
    by (auto simp: ok_two_vias_def ok_single_def invite_a_def Msg0_def addr_peer_def)
qed

section \<open>SDP: evaluation at concrete inputs\<close>

lemmas sdp_eval =
  Parse_def ParseLines_def HasPrefix_def CRLF_def crlfLines_def parseLine_def ParseState0_def
  NewMediaFromLine_def Fields_def spaceLen_def isAsciiSpace_def IsKnownMediaType_def
  IsKnownTransportProtocol_def ParseUint_def isDigit_def ParseInt_def Atoi_def NewCodec_def
  isDynamicPT_def Codec0_def parseOriginLine_def parseConnLine_def Media_addAttribute_def
  Media_addRtpmap_def Media_addFmtp_def Codec_addRtpmap_def Codec_addFmtp_def isDirection_def
  setLastMedia_def hasPanic_def anomaly_def warn_def SDP_addAttribute_def SDP_addOther_def
  Media_addOther_def Codec_IsValid_def

section \<open>SDP: the mandatory lines\<close>

text \<open>
  C8 (what the code does). \<open>Parse\<close> tests \<open>!foundConn && !foundOrigin\<close>: it fails only when
  both lines are missing. In strict mode a text with an origin and no \<open>c=\<close> line is
  accepted with a blank \<open>Addr\<close> and a nil error, and a text with a \<open>c=\<close> line and no
  origin is accepted with a nil \<open>Origin\<close>.
\<close>

theorem Parse_accepts_one_mandatory_line_missing:
  "(\<exists>sdp. Parse tab sdp_text_no_conn True = Inr (sdp, []) \<and>
          SDP_Addr sdp = [] \<and> SDP_Origin sdp \<noteq> None) \<and>
   (\<exists>sdp. Parse tab sdp_text_no_origin True = Inr (sdp, []) \<and>
          SDP_Origin sdp = None \<and> SDP_Addr sdp = ''1.2.3.4'')"
  by (simp add: sdp_text_no_conn_def sdp_text_no_origin_def sdp_eval)

section \<open>SDP: disabled media descriptions\<close>

lemma NewMediaFromLine_disabled:
  "disabledMedia strict mline \<Longrightarrow> NewMediaFromLine tab mline strict = Inr None"
  by (simp add: disabledMedia_def NewMediaFromLine_def Let_def)

lemma Fields_Nil: "Fields [] = []"
  by (simp add: Fields_def)

lemma parseLine_disabled:
  assumes "disabledMedia strict mline"
  shows "parseLine tab strict (''m='' @ mline) st =
           Inr (st \<lparr> inMedia := False, skippingInvalidMedia := True \<rparr>)"
proof -
  from assms have "mline \<noteq> []"
    by (auto simp: disabledMedia_def Fields_Nil)
  then show ?thesis
    using NewMediaFromLine_disabled [OF assms, of tab]
    by (simp add: parseLine_def)
qed

lemma parseLine_skipped:
  "skippedLine l \<Longrightarrow> skippingInvalidMedia st \<Longrightarrow> parseLine tab strict l st = Inr st"
  by (auto simp: skippedLine_def parseLine_def)

lemma parseLines_skipped:
  "\<forall>l \<in> set body. skippedLine l \<Longrightarrow> skippingInvalidMedia st \<Longrightarrow>
     parseLines tab strict body st = Inr st"
  by (induction body) (simp_all add: parseLine_skipped)

lemma parseLines_append:
  "parseLines tab strict (xs @ ys) st =
     (case parseLines tab strict xs st of
        Inl e \<Rightarrow> Inl e
      | Inr st' \<Rightarrow> parseLines tab strict ys st')"
  by (induction xs arbitrary: st) (simp_all split: sum.splits)

lemma parseLine_media_flags:
  "isMediaLine l \<Longrightarrow>
     parseLine tab strict l (st \<lparr> inMedia := a, skippingInvalidMedia := b \<rparr>) =
     parseLine tab strict l st"
  by (auto simp: isMediaLine_def parseLine_def warn_def split: sum.splits option.splits)

lemma parseLines_disabled_section:
  assumes "disabledMedia strict mline" and "\<forall>l \<in> set body. skippedLine l"
  shows "parseLines tab strict ((''m='' @ mline) # body) st =
           Inr (st \<lparr> inMedia := False, skippingInvalidMedia := True \<rparr>)"
proof -
  have "parseLine tab strict (''m='' @ mline) st =
          Inr (st \<lparr> inMedia := False, skippingInvalidMedia := True \<rparr>)"
    by (rule parseLine_disabled [OF assms(1)])
  then show ?thesis
    using assms(2) by (simp add: parseLines_skipped)
qed

text \<open>
  C10 (as the code has it). For an \<open>m=\<close> line with at least four fields, in strict mode a
  known media type, and a port field that converts to 0, \<open>NewMediaFromLine\<close> returns
  neither a media description nor an error. The loop of \<open>Parse\<close> then leaves the SDP and
  the warnings as they are over that line and over the \<open>c=\<close>, \<open>a=\<close>, unknown and empty
  lines that follow it; and when the section ends the text or is followed by another
  \<open>m=\<close> line, the result of the parse is that of the text without the section.
\<close>

theorem disabled_media_omitted:
  assumes "disabledMedia strict mline"
    and "\<forall>l \<in> set body. skippedLine l"
    and "post = [] \<or> isMediaLine (hd post)"
  shows "NewMediaFromLine tab mline strict = Inr None \<and>
         parseLines tab strict ((''m='' @ mline) # body) st =
           Inr (st \<lparr> inMedia := False, skippingInvalidMedia := True \<rparr>) \<and>
         ParseLines tab (pre @ ((''m='' @ mline) # body) @ post) strict =
           ParseLines tab (pre @ post) strict"
proof (intro conjI)
  show "NewMediaFromLine tab mline strict = Inr None"
    by (rule NewMediaFromLine_disabled [OF assms(1)])
  show "parseLines tab strict ((''m='' @ mline) # body) st =
          Inr (st \<lparr> inMedia := False, skippingInvalidMedia := True \<rparr>)"
    by (rule parseLines_disabled_section [OF assms(1,2)])
  have sec: "\<And>s. parseLines tab strict ((''m='' @ mline) # body) s =
          Inr (s \<lparr> inMedia := False, skippingInvalidMedia := True \<rparr>)"
    by (rule parseLines_disabled_section [OF assms(1,2)])
  have tail: "\<And>s. (case parseLines tab strict post
                        (s \<lparr> inMedia := False, skippingInvalidMedia := True \<rparr>) of
                   Inl e \<Rightarrow> Inl e
                 | Inr st' \<Rightarrow> Inr (sdp st', foundConn st', foundOrigin st', warnings st')) =
               (case parseLines tab strict post s of
                   Inl e \<Rightarrow> Inl e
                 | Inr st' \<Rightarrow> Inr (sdp st', foundConn st', foundOrigin st', warnings st'))"
  proof -
    fix s
    show "(case parseLines tab strict post
                        (s \<lparr> inMedia := False, skippingInvalidMedia := True \<rparr>) of
                   Inl e \<Rightarrow> Inl e
                 | Inr st' \<Rightarrow> Inr (sdp st', foundConn st', foundOrigin st', warnings st')) =
               (case parseLines tab strict post s of
                   Inl e \<Rightarrow> Inl e
                 | Inr st' \<Rightarrow> Inr (sdp st', foundConn st', foundOrigin st', warnings st'))"
    proof (cases post)
      case Nil
      then show ?thesis by simp
    next
      case (Cons l rest)
      with assms(3) have "isMediaLine l" by simp
      then show ?thesis
        using Cons by (simp add: parseLine_media_flags)
    qed
  qed
  have view: "\<And>ls. ParseLines tab ls strict =
      (case (case parseLines tab strict ls ParseState0 of
               Inl e \<Rightarrow> Inl e
             | Inr st' \<Rightarrow> Inr (sdp st', foundConn st', foundOrigin st', warnings st')) of
         Inl e \<Rightarrow> Inl e
       | Inr (d, fc, fo, ws) \<Rightarrow>
           if \<not> fc \<and> \<not> fo then Inl MissingMandatory
           else if SDP_Media d = [] then Inl NoMediaDescriptions
           else (case checkCodecs strict (concat (map Media_Codecs (SDP_Media d))) ws of
                   Inl e \<Rightarrow> Inl e
                 | Inr ws' \<Rightarrow> Inr (d, ws')))"
    by (simp add: ParseLines_def split: sum.splits)
  have "(case parseLines tab strict (pre @ ((''m='' @ mline) # body) @ post) ParseState0 of
           Inl e \<Rightarrow> Inl e
         | Inr st' \<Rightarrow> Inr (sdp st', foundConn st', foundOrigin st', warnings st')) =
        (case parseLines tab strict (pre @ post) ParseState0 of
           Inl e \<Rightarrow> Inl e
         | Inr st' \<Rightarrow> Inr (sdp st', foundConn st', foundOrigin st', warnings st'))"
  proof (cases "parseLines tab strict pre ParseState0")
    case (Inl e)
    then show ?thesis by (simp add: parseLines_append)
  next
    case (Inr s)
    then show ?thesis
      using tail [of s] by (simp only: parseLines_append sec sum.case)
  qed
  then show "ParseLines tab (pre @ ((''m='' @ mline) # body) @ post) strict =
           ParseLines tab (pre @ post) strict"
    by (simp only: view)
qed

theorem disabled_media_omitted_witness:
  "disabledMedia True ''video 0 RTP/AVP 103'' \<and>
   NewMediaFromLine iana_tab ''video 0 RTP/AVP 103'' True = Inr None \<and>
   ParseLines iana_tab (avaya_head @ (''m=video 0 RTP/AVP 103'' # avaya_video_body) @ []) True =
     ParseLines iana_tab (avaya_head @ []) True \<and>
   \<not> isl (ParseLines iana_tab (avaya_head @ []) True)"
proof -
  have d: "disabledMedia True ''video 0 RTP/AVP 103''"
    by (simp add: disabledMedia_def sdp_eval)
  have b: "\<forall>l \<in> set avaya_video_body. skippedLine l"
    by (simp add: avaya_video_body_def skippedLine_def)
  have p: "([] :: string list) = [] \<or> isMediaLine (hd [])"
    by simp
  have e: "\<not> isl (ParseLines iana_tab (avaya_head @ []) True)"
    by (simp add: avaya_head_def iana_tab_def sdp_eval)
  from disabled_media_omitted [OF d b p, of iana_tab ParseState0 avaya_head] d e
  show ?thesis by simp
qed

text \<open>
  C10 as stated fails for an \<open>m=\<close> line whose port field converts to 0 but that has
  fewer than four fields: the token count is tested first and the line is an error.
\<close>

theorem disabled_media_counterexample:
  "ParseUint (Split (Fields ''video 0 RTP/AVP'' ! 1) ''/'' ! 0) 16 = Inr 0 \<and>
   NewMediaFromLine iana_tab ''video 0 RTP/AVP'' True = Inl (NotEnoughTokens 3)"
  by (simp add: sdp_eval)

section \<open>Send and the hop count\<close>

lemmas populate_steps = populateVia_def populateContact_def populateTo_def populateFrom_def
  populateCallID_def populateCSeq_def populateCSeqMethod_def populateMaxForwards_def
  populateUserAgent_def populateBranch_def populateTag_def

lemma populate_MaxForwards [simp]:
  "MaxForwards (populateVia v msg) = MaxForwards msg"
  "MaxForwards (populateContact c msg) = MaxForwards msg"
  "MaxForwards (populateTo msg) = MaxForwards msg"
  "MaxForwards (populateFrom msg) = MaxForwards msg"
  "MaxForwards (populateCallID env t msg) = MaxForwards msg"
  "MaxForwards (populateCSeq env t msg) = MaxForwards msg"
  "MaxForwards (populateCSeqMethod msg) = MaxForwards msg"
  "MaxForwards (populateMaxForwards msg) = (if MaxForwards msg = 0 then 70 else MaxForwards msg)"
  "MaxForwards (populateUserAgent m msg) = MaxForwards msg"
  "MaxForwards (populateBranch env t msg) = MaxForwards msg"
  "MaxForwards (populateTag env t msg) = MaxForwards msg"
  by (simp_all add: populate_steps)

lemma PopulateMessage_MaxForwards:
  "PopulateMessage m env t v c msg = Inr m1 \<Longrightarrow>
     MaxForwards m1 = (if \<not> IsResponse msg \<and> MaxForwards msg = 0 then 70 else MaxForwards msg)"
  unfolding PopulateMessage_def
  by (simp split: if_splits) auto

lemma RouteMessage_MaxForwards:
  "RouteMessage v c msg = (e, h, p, m2) \<Longrightarrow> MaxForwards m2 = MaxForwards msg"
  unfolding RouteMessage_def Let_def
  by (simp split: if_splits list.splits option.splits) auto

lemma RouteMessage_no_local_loop:
  "RouteMessage v c msg = (Some err, h, p, m2) \<Longrightarrow> err \<noteq> ErrLocalLoopDetected"
  by (auto simp: RouteMessage_def Let_def split: if_splits list.splits option.splits)

text \<open>
  C7 (as the code has it). \<open>Send\<close> returns the local-loop error exactly when it reaches
  the hop count (the message was populated and a destination chosen without error) and
  Max-Forwards was 1 on entry. On that error the socket is untouched and the message is
  left with Max-Forwards 0. A message that enters with Max-Forwards 0 never gets the
  local-loop error.
\<close>

theorem Send_local_loop:
  "(fst (Send m env w msg) = Some ErrLocalLoopDetected \<longleftrightarrow>
      destinationChosen m env w msg \<and> MaxForwards msg = 1) \<and>
   (fst (Send m env w msg) = Some ErrLocalLoopDetected \<longrightarrow>
      wire (snd (snd (Send m env w msg))) = wire w \<and>
      MaxForwards (fst (snd (Send m env w msg))) = 0) \<and>
   (MaxForwards msg = 0 \<longrightarrow> fst (Send m env w msg) \<noteq> Some ErrLocalLoopDetected)"
proof (cases "PopulateMessage m env (tick w) (Some (m_via m)) (Some (m_contact m)) msg")
  case (Inl p)
  then show ?thesis
    by (simp add: Send_def SendWith_def destinationChosen_def Let_def)
next
  case (Inr m1)
  note pop = PopulateMessage_MaxForwards [OF Inr]
  show ?thesis
  proof (cases "proxyAddress m")
    case (Some a)
    with Inr pop show ?thesis
      by (auto simp: Send_def SendWith_def destinationChosen_def Let_def hopCheck_def
          split: sum.splits if_splits)
  next
    case None
    obtain e h p m2 where r: "RouteMessage (Some (m_via m)) (Some (m_contact m)) m1 = (e, h, p, m2)"
      by (cases "RouteMessage (Some (m_via m)) (Some (m_contact m)) m1") auto
    note rt = RouteMessage_MaxForwards [OF r]
    show ?thesis
    proof (cases e)
      case (Some err)
      with r have "err \<noteq> ErrLocalLoopDetected"
        by (simp add: RouteMessage_no_local_loop)
      with Inr None r Some show ?thesis
        by (simp add: Send_def SendWith_def destinationChosen_def Let_def)
    next
      case noerr: None
      show ?thesis
      proof (cases "ResolveUDPAddr env (tick w) h (Itoa (uint p))")
        case None
        with Inr \<open>proxyAddress m = None\<close> r noerr show ?thesis
          by (simp add: Send_def SendWith_def destinationChosen_def Let_def)
      next
        case (Some a)
        with Inr \<open>proxyAddress m = None\<close> r noerr pop rt show ?thesis
          by (auto simp: Send_def SendWith_def destinationChosen_def Let_def hopCheck_def
              split: sum.splits if_splits)
      qed
    qed
  qed
qed

lemmas send_eval =
  Send_def SendWith_def hopCheck_def PopulateMessage_def populate_steps RouteMessage_def
  addTimestamp_def IsResponse_def Msg0_def mgr_direct_def mgr_proxy_def env0_def world0_def
  Let_def Addr_CompareHostPort_def Addr_head_def Via_CompareHostPort_def Via_head_def
  URI_GetPort_def Param_Get_def pushParam_def via_a_def via_b_def uri_peer_def addr_peer_def
  addr_proxy1_def addr_proxy2_def

theorem Send_local_loop_witness:
  "destinationChosen mgr_proxy env0 world0 options_last_hop \<and>
   MaxForwards options_last_hop = 1 \<and>
   fst (Send mgr_proxy env0 world0 options_last_hop) = Some ErrLocalLoopDetected \<and>
   wire (snd (snd (Send mgr_proxy env0 world0 options_last_hop))) = [] \<and>
   MaxForwards ok_single = 0 \<and>
   fst (Send mgr_proxy env0 world0 ok_single) = None"
proof -
  have d: "destinationChosen mgr_proxy env0 world0 options_last_hop"
    by (simp add: destinationChosen_def options_last_hop_def send_eval)
  have h: "MaxForwards options_last_hop = 1"
    by (simp add: options_last_hop_def Msg0_def)
  have z: "MaxForwards ok_single = 0 \<and> fst (Send mgr_proxy env0 world0 ok_single) = None"
    by (simp add: ok_single_def send_eval)
  from Send_local_loop [of mgr_proxy env0 world0 options_last_hop] d h z show ?thesis
    by (simp add: world0_def)
qed

text \<open>
  C7 as stated fails where \<open>Send\<close> returns before the hop count: without a proxy, a
  REGISTER that carries a Route and a Max-Forwards of 1 is refused by \<open>RouteMessage\<close>.
\<close>

theorem Send_local_loop_counterexample:
  "MaxForwards register_routed = 1 \<and>
   fst (Send mgr_direct env0 world0 register_routed) = Some ErrDontRouteRegister"
  by (simp add: register_routed_def send_eval)

text \<open>The earlier revision of \<open>Send\<close> reports a local loop for a response, whose
  Max-Forwards is 0 on entry and is not populated.\<close>

lemma Send_earlier_zero_hop:
  "MaxForwards ok_single = 0 \<and>
   fst (Send_earlier mgr_proxy env0 world0 ok_single) = Some ErrLocalLoopDetected"
  by (simp add: Send_earlier_def hopCheck_earlier_def ok_single_def send_eval)

section \<open>The dialog: what each method leaves unchanged\<close>

lemma final_simps [simp]:
  "final (Crashed p) = None" "final (Continue s) = Some s" "final (Stop s) = Some s"
  by (simp_all add: final_def)

lemma populate_Status [simp]:
  "Status (populateVia v msg) = Status msg"
  "Status (populateContact c msg) = Status msg"
  "Status (populateTo msg) = Status msg"
  "Status (populateFrom msg) = Status msg"
  "Status (populateCallID env t msg) = Status msg"
  "Status (populateCSeq env t msg) = Status msg"
  "Status (populateCSeqMethod msg) = Status msg"
  "Status (populateMaxForwards msg) = Status msg"
  "Status (populateUserAgent m msg) = Status msg"
  "Status (populateBranch env t msg) = Status msg"
  "Status (populateTag env t msg) = Status msg"
  by (simp_all add: populate_steps)

lemma PopulateMessage_Status:
  "PopulateMessage m env t v c msg = Inr m1 \<Longrightarrow> Status m1 = Status msg"
  unfolding PopulateMessage_def
  by (simp split: if_splits) auto

lemma RouteMessage_Status:
  "RouteMessage v c msg = (e, h, p, m2) \<Longrightarrow> Status m2 = Status msg"
  unfolding RouteMessage_def Let_def
  by (simp split: if_splits list.splits option.splits) auto

lemma addTimestamp_Status:
  "addTimestamp m env t msg = Inr m1 \<Longrightarrow> Status m1 = Status msg"
  by (auto simp: addTimestamp_def split: if_splits)

lemma Send_frame:
  assumes "Send m env w msg = (e, msg', w')"
  shows "tick w' = Suc (tick w)"
    and "e = None \<Longrightarrow> \<exists>d. wire w' = wire w @ [(d, msg')]"
    and "e \<noteq> None \<Longrightarrow> wire w' = wire w"
  using assms
  by (auto simp: Send_def SendWith_def Let_def
      split: sum.splits option.splits prod.splits if_splits)

lemma Send_Status:
  assumes "Send m env w msg = (e, msg', w')"
  shows "Status msg' = Status msg"
  using assms
  by (auto simp: Send_def SendWith_def Let_def
      dest!: PopulateMessage_Status RouteMessage_Status addTimestamp_Status
      split: sum.splits option.splits prod.splits if_splits)

lemma sendVia_eq:
  "sendVia m env msg s =
     (fst (Send m env (world s) msg), fst (snd (Send m env (world s) msg)),
      s \<lparr> world := snd (snd (Send m env (world s) msg)) \<rparr>)"
  by (simp add: sendVia_def split: prod.splits)

lemma reply_cases:
  "reply m env msg st s =
     (case fst (Send m env (world s) (NewResponse m msg st)) of
        None \<Rightarrow> Continue (s \<lparr> world := snd (snd (Send m env (world s) (NewResponse m msg st))) \<rparr>)
      | Some (Panicked p) \<Rightarrow> Crashed p
      | Some e \<Rightarrow> Stop (s \<lparr> world := snd (snd (Send m env (world s) (NewResponse m msg st))) \<rparr>))"
  by (simp add: reply_def sendVia_eq split: option.splits SendError.splits)

lemma reply_frame:
  "final (reply m env msg st s) = Some s' \<Longrightarrow>
     s' = s \<lparr> world := snd (snd (Send m env (world s) (NewResponse m msg st))) \<rparr>"
  by (auto simp: reply_cases split: option.splits SendError.splits)

lemma putRequest_fields [simp]:
  "state (putRequest r s) = state s"
  "rSeq (putRequest r s) = rSeq s"
  "requestResends (putRequest r s) = requestResends s"
  "sentOnRoute (putRequest r s) = sentOnRoute s"
  "world (putRequest r s) = world s"
  "request (putRequest r s) = request s"
  by (simp_all add: putRequest_def split: option.splits ReqRef.splits)

lemma popRoute_state:
  "final (popRoute m env s) = Some s' \<Longrightarrow> state s' = state s"
  unfolding popRoute_def
  by (auto simp: errSend_def sendVia_eq split: list.splits option.splits sum.splits
      SendError.splits if_splits)

lemma sendRequest_state:
  "final (sendRequest m env ref msg s) = Some s' \<Longrightarrow> state s' = state s"
  unfolding sendRequest_def
  by (auto simp: errSend_def split: prod.splits option.splits SendError.splits if_splits
      dest!: popRoute_state)

lemma sendResponse_state:
  "final (sendResponse m env msg s) = Some s' \<Longrightarrow> state s' = state s"
  unfolding sendResponse_def
  by (auto simp: sendVia_eq split: option.splits SendError.splits)

lemma resendRequest_state:
  "final (resendRequest m env s) = Some s' \<Longrightarrow> state s' = state s"
  unfolding resendRequest_def
  by (auto simp: sendVia_eq split: option.splits SendError.splits if_splits
      dest!: popRoute_state)

lemma resendResponse_state:
  "final (resendResponse m env s) = Some s' \<Longrightarrow> state s' = state s"
  unfolding resendResponse_def
  by (auto simp: sendVia_eq split: option.splits SendError.splits if_splits
      dest!: popRoute_state)

lemmas status_defs =
  StatusProceeding_def StatusRinging_def StatusAnswered_def StatusHangup_def StatusFailed_def
  sip_StatusTrying_def sip_StatusRinging_def sip_StatusSessionProgress_def sip_StatusOK_def
  sip_StatusMovedPermanently_def sip_StatusMovedTemporarily_def sip_StatusMethodNotAllowed_def
  sip_StatusCallTransactionDoesNotExist_def sip_StatusTooManyHops_def
  sip_StatusInternalServerError_def sip_StatusServiceUnavailable_def
  sip_StatusVersionNotSupported_def

lemmas method_defs = MethodInvite_def MethodAck_def MethodCancel_def MethodBye_def MethodOptions_def

lemma ackFinal_frame:
  "ackFinal m env req msg s = Continue s1 \<Longrightarrow> s1 = s \<lparr> world := world s1 \<rparr>"
  unfolding ackFinal_def
  by (auto simp: sendVia_eq split: if_splits sum.splits option.splits SendError.splits)

lemma ackFinal_state:
  "final (ackFinal m env req msg s) = Some s' \<Longrightarrow> state s' = state s"
  unfolding ackFinal_def
  by (auto simp: sendVia_eq errSend_def split: if_splits sum.splits option.splits SendError.splits)

lemma checkSDP_fields [simp]:
  "state (checkSDP msg s) = state s" "remote (checkSDP msg s) = remote s"
  "rSeq (checkSDP msg s) = rSeq s"
  by (simp_all add: checkSDP_def split: Payload.splits)

lemma afterDispatch_dls:
  "dls (afterDispatch sys out) = (case final out of None \<Rightarrow> dls sys | Some s \<Rightarrow> s)"
  by (simp add: afterDispatch_def split: Outcome.splits)

lemma afterSelect_dls:
  "dls (afterSelect sys out) = (case final out of None \<Rightarrow> dls sys | Some s \<Rightarrow> s)"
  by (simp add: afterSelect_def split: Outcome.splits)

lemma reply_state:
  "final (reply m env msg st s) = Some s' \<Longrightarrow> state s' = state s"
  by (auto simp: reply_cases split: option.splits SendError.splits)

section \<open>The state of the dialog\<close>

lemmas dialog_eval =
  step_def run.simps HandleIncomingMessage_def afterDispatch_def afterSelect_def
  handleResponse_def handleRequest_def onStatus_def onMethod_def ackFinal_def
  sendResponse_def resendRequest_def resendResponse_def hangup_def popRoute_def
  sendRequest_def RouteAddress_def populate_def populateOwnVia_def populateViaPort_def
  populateNewBranch_def populateOwnContact_def populateContactUri_def populateSDP_def
  sendVia_def reply_def getRequest_def putRequest_def transition_def checkSDP_def errSend_def
  NewDialog_def NewResponse_def NewCancel_def NewBye_def NewAck_def ResponseMatch_def
  Via_CompareBranch_def Via_Last_def Via_Detach_def Addr_Reversed_def
  Dialog_Hangup_def ready_def JoinHostPort_def Portstr_def Or5060_def FormatUint_def
  status_defs Phrase_of_def method_defs

lemmas dialog_inputs =
  invite_a_def trying_a_def ringing_a_def answer_a_def showNat.simps

lemma stateAfter_simps [simp]:
  "stateAfter s (Crashed p) = state s" "stateAfter s (Continue s') = state s'"
  "stateAfter s (Stop s') = state s'"
  by (simp_all add: stateAfter_def)

lemma stateAfter_keep:
  "(\<And>s'. final out = Some s' \<Longrightarrow> state s' = state s) \<Longrightarrow> stateAfter s out = state s"
  by (cases "final out") (auto simp: stateAfter_def)

lemma stateAfter_cong:
  "state t = state s \<Longrightarrow> stateAfter t out = stateAfter s out"
  by (simp add: stateAfter_def split: option.splits)

lemma stateAfter_popRoute [simp]: "stateAfter s (popRoute m env s) = state s"
  by (rule stateAfter_keep) (rule popRoute_state)

lemma stateAfter_sendRequest: "stateAfter s (sendRequest m env ref msg s) = state s"
  by (rule stateAfter_keep) (rule sendRequest_state)

lemma stateAfter_reply [simp]: "stateAfter s (reply m env msg st s) = state s"
  by (rule stateAfter_keep) (rule reply_state)

lemma onStatus_exact:
  "stateAfter s (onStatus m env msg s) =
     (case statusTransition msg s of None \<Rightarrow> state s | Some st \<Rightarrow> st)"
  unfolding onStatus_def statusTransition_def
  by (auto simp: transition_def errSend_def status_defs method_defs stateAfter_sendRequest
      split: list.splits)


lemma statusTransition_cong:
  "remote t = remote s \<Longrightarrow> statusTransition msg t = statusTransition msg s"
  by (simp add: statusTransition_def)

lemma ackFinal_Stop_state:
  "ackFinal m env req msg s = Stop s1 \<Longrightarrow> state s1 = state s"
  using ackFinal_state [of m env req msg s s1] by simp

lemma handleResponse_exact:
  "stateAfter s (handleResponse m env msg s) =
     (case getRequest s of
        None \<Rightarrow> state s
      | Some req \<Rightarrow>
          if ResponseMatch req msg \<and> ackSent m env req msg s
          then (case statusTransition msg s of None \<Rightarrow> state s | Some st \<Rightarrow> st)
          else state s)"
proof (cases "getRequest s")
  case None
  then show ?thesis by (simp add: handleResponse_def)
next
  case (Some req)
  show ?thesis
  proof (cases "ResponseMatch req msg")
    case False
    with Some show ?thesis by (simp add: handleResponse_def)
  next
    case True
    show ?thesis
    proof (cases "ackFinal m env req msg s")
      case (Crashed p)
      with Some True show ?thesis by (simp add: handleResponse_def ackSent_def)
    next
      case (Stop s1)
      with Some True ackFinal_Stop_state [OF Stop] show ?thesis
        by (simp add: handleResponse_def ackSent_def)
    next
      case (Continue s1)
      then have "s1 = s \<lparr> world := world s1 \<rparr>"
        by (rule ackFinal_frame)
      then obtain w where s1: "s1 = s \<lparr> world := w \<rparr>" ..
      define s2 where "s2 = (if Status msg \<le> sip_StatusOK then checkSDP msg s1 else s1)
                   \<lparr> routes := [], requestTimer := False \<rparr>"
      have st: "state s2 = state s" and rm: "remote s2 = remote s"
        using s1 by (simp_all add: s2_def)
      from Some True Continue
      have "stateAfter s (handleResponse m env msg s) = stateAfter s (onStatus m env msg s2)"
        by (simp add: handleResponse_def s2_def)
      also have "\<dots> = stateAfter s2 (onStatus m env msg s2)"
        by (rule stateAfter_cong [symmetric]) (rule st)
      also have "\<dots> = (case statusTransition msg s2 of None \<Rightarrow> state s2 | Some st \<Rightarrow> st)"
        by (rule onStatus_exact)
      also have "\<dots> = (case statusTransition msg s of None \<Rightarrow> state s | Some st \<Rightarrow> st)"
        by (simp add: statusTransition_cong [OF rm] st split: option.splits)
      finally show ?thesis using Some True Continue by (simp add: ackSent_def)
    qed
  qed
qed

lemma sendResponse_keep [simp]: "stateAfter s (sendResponse m env msg s) = state s"
  by (rule stateAfter_keep) (rule sendResponse_state)

lemma onMethod_exact:
  "stateAfter s (onMethod m env msg s) =
     (if Method msg = MethodBye \<and> replySent m env msg sip_StatusOK s
      then StatusHangup else state s)"
proof (cases "Method msg = MethodBye")
  case True
  then show ?thesis
    using reply_state [of m env msg sip_StatusOK s]
    by (cases "reply m env msg sip_StatusOK s")
      (simp_all add: onMethod_def replySent_def transition_def)
next
  case False
  have "stateAfter (checkSDP msg (s \<lparr> remote := Some msg \<rparr>))
          (sendResponse m env (NewResponse m msg sip_StatusOK)
             (checkSDP msg (s \<lparr> remote := Some msg \<rparr>))) = state s"
    by simp
  then have "stateAfter s
          (sendResponse m env (NewResponse m msg sip_StatusOK)
             (checkSDP msg (s \<lparr> remote := Some msg \<rparr>))) = state s"
    by (simp add: stateAfter_cong [of s "checkSDP msg (s \<lparr> remote := Some msg \<rparr>)"])
  with False show ?thesis
    by (simp add: onMethod_def)
qed

lemma handleRequest_exact:
  "stateAfter s (handleRequest m env msg s) =
     (if byeAnswered m env msg s then StatusHangup else state s)"
proof (cases "MaxForwards msg \<le> 0")
  case True
  then show ?thesis
    using reply_state [of m env msg sip_StatusTooManyHops s]
    by (cases "reply m env msg sip_StatusTooManyHops s")
      (simp_all add: handleRequest_def byeAnswered_def errSend_def)
next
  case mf: False
  show ?thesis
  proof (cases "rSeq s \<noteq> 0 \<and> CSeq msg < rSeq s")
    case True
    with mf show ?thesis by (auto simp: handleRequest_def byeAnswered_def)
  next
    case False
    with mf have "handleRequest m env msg s = onMethod m env msg (s \<lparr> rSeq := CSeq msg \<rparr>)"
      by (auto simp: handleRequest_def)
    then have "stateAfter s (handleRequest m env msg s) =
        stateAfter (s \<lparr> rSeq := CSeq msg \<rparr>) (onMethod m env msg (s \<lparr> rSeq := CSeq msg \<rparr>))"
      by (simp add: stateAfter_cong [of s "s \<lparr> rSeq := CSeq msg \<rparr>"])
    with mf False show ?thesis
      by (auto simp: onMethod_exact byeAnswered_def)
  qed
qed

lemma hangup_exact:
  "stateAfter s (hangup m env s) =
     (if state s \<noteq> StatusProceeding \<and> state s \<noteq> StatusRinging \<and> state s \<noteq> StatusAnswered \<and>
         state s \<noteq> StatusHangup
      then StatusHangup else state s)"
proof -
  consider "state s = StatusProceeding \<or> state s = StatusRinging"
    | "\<not> (state s = StatusProceeding \<or> state s = StatusRinging)" "state s = StatusAnswered"
    | "\<not> (state s = StatusProceeding \<or> state s = StatusRinging)" "state s \<noteq> StatusAnswered"
    by blast
  then show ?thesis
  proof cases
    case 1
    then show ?thesis
      by (auto simp: hangup_def sendVia_eq split: option.splits SendError.splits)
  next
    case 2
    show ?thesis
    proof (cases "NewBye m (invite s) (remote s) (lSeq s)")
      case (Inl p)
      with 2 show ?thesis by (simp add: hangup_def)
    next
      case (Inr bl)
      obtain bye l where bl: "bl = (bye, l)" by (cases bl) auto
      have "stateAfter (s \<lparr> lSeq := l \<rparr>) (sendRequest m env RefBye bye (s \<lparr> lSeq := l \<rparr>)) = state s"
        by (simp add: stateAfter_sendRequest)
      then have "stateAfter s (sendRequest m env RefBye bye (s \<lparr> lSeq := l \<rparr>)) = state s"
        by (simp add: stateAfter_cong [of s "s \<lparr> lSeq := l \<rparr>"])
      with 2 Inr bl show ?thesis by (simp add: hangup_def)
    qed
  next
    case 3
    then show ?thesis
      by (auto simp: hangup_def transition_def)
  qed
qed

lemma afterDispatch_state:
  "state (dls (afterDispatch sys out)) = stateAfter (dls sys) out"
  by (simp add: afterDispatch_dls stateAfter_def split: option.splits)

lemma afterSelect_stateAfter:
  "state (dls (afterSelect sys out)) = stateAfter (dls sys) out"
  by (simp add: afterSelect_dls stateAfter_def split: option.splits)

lemma reply_dropped_state:
  "stateAfter s (case reply m env msg st s of Stop s' \<Rightarrow> Continue s' | out \<Rightarrow> out) = state s"
  using reply_state [of m env msg st s]
  by (cases "reply m env msg st s") simp_all

lemma HandleIncomingMessage_exact:
  "state (dls (HandleIncomingMessage m env msg sys)) =
     (if dispatched sys msg then
        (if IsResponse msg then stateAfter (dls sys) (handleResponse m env msg (dls sys))
         else stateAfter (dls sys) (handleRequest m env msg (dls sys)))
      else state (dls sys))"
  by (auto simp: HandleIncomingMessage_def afterDispatch_state dispatched_def
      reply_dropped_state)

lemma step_exact:
  "state (dls (step m env ev sys)) =
     (case transitionOf m env ev sys of None \<Rightarrow> state (dls sys) | Some st \<Rightarrow> st)"
proof (cases "crashed sys")
  case True
  then show ?thesis by (simp add: step_def transitionOf_def)
next
  case nc: False
  show ?thesis
  proof (cases ev)
    case Start
    have "stateAfter (dls sys) (sendRequest m env RefInvite (invite (dls sys)) (dls sys))
            = state (dls sys)"
      by (rule stateAfter_sendRequest)
    with nc Start show ?thesis
      by (cases "sendRequest m env RefInvite (invite (dls sys)) (dls sys)")
        (simp_all add: step_def transitionOf_def)
  next
    case (Incoming msg)
    with nc show ?thesis
      by (simp add: step_def transitionOf_def HandleIncomingMessage_exact
          handleResponse_exact handleRequest_exact split: option.splits)
  next
    case RequestTimer
    have "stateAfter (dls sys) (resendRequest m env (dls sys)) = state (dls sys)"
      by (rule stateAfter_keep) (rule resendRequest_state)
    with nc RequestTimer show ?thesis
      by (simp add: step_def transitionOf_def afterSelect_stateAfter)
  next
    case ResponseTimer
    have "stateAfter (dls sys) (resendResponse m env (dls sys)) = state (dls sys)"
      by (rule stateAfter_keep) (rule resendResponse_state)
    with nc ResponseTimer show ?thesis
      by (simp add: step_def transitionOf_def afterSelect_stateAfter)
  next
    case HangupSignal
    with nc show ?thesis
      by (simp add: step_def transitionOf_def afterSelect_stateAfter hangup_exact)
  qed
qed

lemma statusTransition_range:
  "statusTransition msg s = Some st \<Longrightarrow> st \<noteq> StatusFailed"
  by (auto simp: statusTransition_def status_defs split: if_splits)

lemma transitionOf_range:
  "transitionOf m env ev sys \<noteq> Some StatusFailed"
  by (auto simp: transitionOf_def StatusHangup_def StatusFailed_def
      dest: statusTransition_range [unfolded StatusFailed_def]
      split: Event.splits option.splits if_splits)

lemma transitionOf_ended:
  "\<not> alive sys \<Longrightarrow> transitionOf m env ev sys = None"
  by (simp add: transitionOf_def dispatched_def split: Event.splits)

lemma run_not_failed:
  "state (dls sys) \<noteq> StatusFailed \<Longrightarrow> state (dls (run m env evs sys)) \<noteq> StatusFailed"
proof (induction evs arbitrary: sys)
  case Nil
  then show ?case by simp
next
  case (Cons ev evs)
  have "state (dls (step m env ev sys)) \<noteq> StatusFailed"
    using Cons.prems transitionOf_range [of m env ev sys]
    by (auto simp: step_exact split: option.splits)
  then show ?case by (simp add: Cons.IH)
qed

lemma provisional_sets_state:
  assumes "\<not> crashed sys" "dispatched sys msg" "IsResponse msg"
    "getRequest (dls sys) = Some req" "ResponseMatch req msg"
  shows "Status msg = sip_StatusTrying \<Longrightarrow>
           state (dls (step m env (Incoming msg) sys)) = StatusProceeding"
    and "Status msg = sip_StatusRinging \<or> Status msg = sip_StatusSessionProgress \<Longrightarrow>
           state (dls (step m env (Incoming msg) sys)) = StatusRinging"
proof -
  have ack: "Status msg < sip_StatusOK \<Longrightarrow> ackSent m env req msg (dls sys)"
    by (simp add: ackSent_def ackFinal_def)
  show "Status msg = sip_StatusTrying \<Longrightarrow>
           state (dls (step m env (Incoming msg) sys)) = StatusProceeding"
    using assms ack
    by (simp add: step_exact transitionOf_def statusTransition_def status_defs)
  show "Status msg = sip_StatusRinging \<or> Status msg = sip_StatusSessionProgress \<Longrightarrow>
           state (dls (step m env (Incoming msg) sys)) = StatusRinging"
    using assms ack
    by (auto simp: step_exact transitionOf_def statusTransition_def status_defs)
qed


lemma answered_facts:
  "\<not> crashed answered" "dispatched answered ringing_a" "IsResponse ringing_a"
  "getRequest (dls answered) = Some (invite (dls answered))"
  "ResponseMatch (invite (dls answered)) ringing_a"
  "Status ringing_a = sip_StatusRinging" "state (dls answered) = StatusAnswered"
  by (simp_all add: answered_def dispatched_def IsResponse_def dialog_eval send_eval dialog_inputs)

text \<open>
  C2 (as the code has it). \<open>transition\<close> has no guard, so the state is not monotone. The
  state after an event is the one that \<open>transitionOf\<close> gives, and the old one when it
  gives none: a response that matches the current request (and, when it is a final
  response to the INVITE, could be ACKed) sets Proceeding for 100, Ringing for 180 and
  183, Answered for a 200 to the INVITE while no remote message is stored, Hangup for a
  200 to BYE or CANCEL; a BYE that passes the hop and CSeq tests and is answered sets
  Hangup; a hangup in a state other than Proceeding, Ringing, Answered and Hangup sets
  Hangup; the start of the task and the timers set nothing. No event sets Failed, and no
  event sets anything once the task of the dialog has returned. A matching 100 sets
  Proceeding, and a matching 180 or 183 Ringing, whatever the state was.
\<close>

theorem state_after_event:
  "state (dls (step m env ev sys)) =
     (case transitionOf m env ev sys of None \<Rightarrow> state (dls sys) | Some st \<Rightarrow> st) \<and>
   transitionOf m env ev sys \<noteq> Some StatusFailed \<and>
   (\<not> alive sys \<longrightarrow> transitionOf m env ev sys = None) \<and>
   (\<not> crashed sys \<and> dispatched sys msg \<and> IsResponse msg \<and>
    getRequest (dls sys) = Some req \<and> ResponseMatch req msg \<longrightarrow>
      (Status msg = sip_StatusTrying \<longrightarrow>
         state (dls (step m env (Incoming msg) sys)) = StatusProceeding) \<and>
      (Status msg = sip_StatusRinging \<or> Status msg = sip_StatusSessionProgress \<longrightarrow>
         state (dls (step m env (Incoming msg) sys)) = StatusRinging)) \<and>
   state (dls (run m env evs (NewDialog m env w inv0))) \<noteq> StatusFailed"
proof (intro conjI impI)
  show "state (dls (step m env ev sys)) =
     (case transitionOf m env ev sys of None \<Rightarrow> state (dls sys) | Some st \<Rightarrow> st)"
    by (rule step_exact)
  show "transitionOf m env ev sys \<noteq> Some StatusFailed"
    by (rule transitionOf_range)
  show "\<not> alive sys \<Longrightarrow> transitionOf m env ev sys = None"
    by (rule transitionOf_ended)
  show "state (dls (run m env evs (NewDialog m env w inv0))) \<noteq> StatusFailed"
    by (rule run_not_failed) (simp add: NewDialog_def StatusFailed_def)
next
  assume a: "\<not> crashed sys \<and> dispatched sys msg \<and> IsResponse msg \<and>
    getRequest (dls sys) = Some req \<and> ResponseMatch req msg"
  { assume "Status msg = sip_StatusTrying"
    with a show "state (dls (step m env (Incoming msg) sys)) = StatusProceeding"
      by (intro provisional_sets_state(1) [of sys msg req]) simp_all
  }
  { assume "Status msg = sip_StatusRinging \<or> Status msg = sip_StatusSessionProgress"
    with a show "state (dls (step m env (Incoming msg) sys)) = StatusRinging"
      by (intro provisional_sets_state(2) [of sys msg req]) simp_all
  }
qed

theorem state_after_event_witness:
  "\<not> crashed answered \<and> dispatched answered ringing_a \<and> IsResponse ringing_a \<and>
   getRequest (dls answered) = Some (invite (dls answered)) \<and>
   ResponseMatch (invite (dls answered)) ringing_a \<and>
   Status ringing_a = sip_StatusRinging \<and>
   state (dls answered) = StatusAnswered \<and>
   state (dls (step mgr_proxy env0 (Incoming ringing_a) answered)) = StatusRinging"
  using state_after_event [of mgr_proxy env0 "Incoming ringing_a" answered ringing_a
      "invite (dls answered)" "[]" world0 invite_a] answered_facts
  by simp

theorem state_regresses_counterexample:
  "state (dls (run mgr_proxy env0 [Start, Incoming answer_a]
      (NewDialog mgr_proxy env0 world0 invite_a))) = StatusAnswered \<and>
   state (dls (run mgr_proxy env0 [Start, Incoming answer_a, Incoming ringing_a]
      (NewDialog mgr_proxy env0 world0 invite_a))) = StatusRinging \<and>
   state (dls (run mgr_proxy env0 [Start, Incoming bye_a]
      (NewDialog mgr_proxy env0 world0 invite_a))) = StatusHangup \<and>
   alive (run mgr_proxy env0 [Start, Incoming bye_a]
      (NewDialog mgr_proxy env0 world0 invite_a)) \<and>
   state (dls (run mgr_proxy env0 [Start, Incoming bye_a, Incoming trying_a]
      (NewDialog mgr_proxy env0 world0 invite_a))) = StatusProceeding"
  by (simp add: dialog_eval send_eval dialog_inputs bye_a_def)

section \<open>The remote sequence number\<close>

lemma NewResponse_Status [simp]: "Status (NewResponse m msg st) = st"
  by (simp add: NewResponse_def)

lemma reply_wire:
  "reply m env msg st s = Continue s' \<Longrightarrow>
     \<exists>d r. wire (world s') = wire (world s) @ [(d, r)] \<and> Status r = st"
  "reply m env msg st s = Stop s' \<Longrightarrow> wire (world s') = wire (world s)"
proof -
  obtain e r w' where S: "Send m env (world s) (NewResponse m msg st) = (e, r, w')"
    by (cases "Send m env (world s) (NewResponse m msg st)") auto
  note f = Send_frame [OF S] Send_Status [OF S]
  show "reply m env msg st s = Continue s' \<Longrightarrow>
     \<exists>d r. wire (world s') = wire (world s) @ [(d, r)] \<and> Status r = st"
    using f by (auto simp: reply_cases S split: option.splits SendError.splits)
  show "reply m env msg st s = Stop s' \<Longrightarrow> wire (world s') = wire (world s)"
    using f by (auto simp: reply_cases S split: option.splits SendError.splits)
qed

lemma reply_rSeq:
  "final (reply m env msg st s) = Some s' \<Longrightarrow> rSeq s' = rSeq s"
  by (auto simp: reply_cases split: option.splits SendError.splits)

lemma sendResponse_rSeq:
  "final (sendResponse m env msg s) = Some s' \<Longrightarrow> rSeq s' = rSeq s"
  unfolding sendResponse_def
  by (auto simp: sendVia_eq split: option.splits SendError.splits)

lemma reply_rSeq_out:
  "reply m env msg st s = Continue s' \<Longrightarrow> rSeq s' = rSeq s"
  "reply m env msg st s = Stop s' \<Longrightarrow> rSeq s' = rSeq s"
  using reply_rSeq [of m env msg st s s'] by simp_all

lemma onMethod_rSeq:
  "final (onMethod m env msg s) = Some s' \<Longrightarrow> rSeq s' = rSeq s"
  unfolding onMethod_def
  by (auto simp: transition_def reply_rSeq_out split: if_splits Outcome.splits
      dest!: sendResponse_rSeq reply_rSeq)

lemma reply_unchanged:
  "final (reply m env msg st s) = Some s' \<Longrightarrow> s' = s \<lparr> world := world s' \<rparr>"
  by (auto simp: reply_cases split: option.splits SendError.splits)

lemma replySent_iff:
  "replySent m env msg st s \<longleftrightarrow> (\<exists>s'. reply m env msg st s = Continue s')"
  by (cases "reply m env msg st s") (simp_all add: replySent_def)

lemma reply_not_sent:
  "\<not> replySent m env msg st s \<Longrightarrow> final (reply m env msg st s) = Some s' \<Longrightarrow>
     reply m env msg st s = Stop s'"
  by (cases "reply m env msg st s") (simp_all add: replySent_def)

lemma sendVia_datagram:
  assumes "sendVia m env msg s = (e, msg', s')"
  shows "e = None \<Longrightarrow> \<exists>d r. wire (world s') = wire (world s) @ [(d, r)] \<and> Status r = Status msg"
    and "e \<noteq> None \<Longrightarrow> wire (world s') = wire (world s)"
proof -
  obtain e0 r w' where S: "Send m env (world s) msg = (e0, r, w')"
    by (cases "Send m env (world s) msg") auto
  with assms have eq: "e = e0" "s' = s \<lparr> world := w' \<rparr>"
    by (simp_all add: sendVia_def)
  note f = Send_frame [OF S] Send_Status [OF S]
  show "e = None \<Longrightarrow> \<exists>d r. wire (world s') = wire (world s) @ [(d, r)] \<and> Status r = Status msg"
    using f eq by auto
  show "e \<noteq> None \<Longrightarrow> wire (world s') = wire (world s)"
    using f(3) eq by auto
qed

lemma checkSDP_world [simp]: "world (checkSDP msg s) = world s"
  by (simp add: checkSDP_def split: Payload.splits)

lemma sendResponse_wire:
  assumes "final (sendResponse m env msg s) = Some s'"
  shows "wire (world s') = wire (world s) \<or>
         (\<exists>d r. wire (world s') = wire (world s) @ [(d, r)] \<and> Status r = Status msg)"
proof -
  let ?t = "s \<lparr> response := Some msg, responseResends := 0, responseTimer := True \<rparr>"
  obtain e msg' t' where sv: "sendVia m env msg ?t = (e, msg', t')"
    by (cases "sendVia m env msg ?t") auto
  from assms sv have s': "s' = t' \<lparr> response := Some msg' \<rparr>"
    by (auto simp: sendResponse_def split: option.splits SendError.splits)
  show ?thesis
  proof (cases e)
    case None
    from sendVia_datagram(1) [OF sv None] s' show ?thesis by simp
  next
    case (Some err)
    then have "e \<noteq> None" by simp
    from sendVia_datagram(2) [OF sv this] s' show ?thesis by simp
  qed
qed

lemma reply_final_wire:
  assumes "final (reply m env msg st s) = Some s'"
  shows "wire (world s') = wire (world s) \<or>
         (\<exists>d r. wire (world s') = wire (world s) @ [(d, r)] \<and> Status r = st)"
  using assms reply_wire [of m env msg st s s']
  by (cases "reply m env msg st s") auto

lemma onMethod_wire:
  assumes "final (onMethod m env msg s) = Some s'"
  shows "wire (world s') = wire (world s) \<or>
         (\<exists>d r. wire (world s') = wire (world s) @ [(d, r)] \<and>
                (Status r = sip_StatusOK \<or> Status r = sip_StatusMethodNotAllowed))"
proof -
  consider (bye) "Method msg = MethodBye"
    | (opt) "Method msg \<noteq> MethodBye" "Method msg = MethodOptions"
    | (inv) "Method msg \<noteq> MethodBye" "Method msg \<noteq> MethodOptions" "Method msg = MethodInvite"
    | (ack) "Method msg \<noteq> MethodBye" "Method msg \<noteq> MethodOptions" "Method msg \<noteq> MethodInvite"
        "Method msg = MethodAck"
    | (other) "Method msg \<noteq> MethodBye" "Method msg \<noteq> MethodOptions"
        "Method msg \<noteq> MethodInvite" "Method msg \<noteq> MethodAck"
    by blast
  then show ?thesis
  proof cases
    case bye
    show ?thesis
    proof (cases "reply m env msg sip_StatusOK s")
      case (Crashed p)
      with assms bye show ?thesis by (simp add: onMethod_def)
    next
      case (Continue s1)
      with assms bye have "s' = transition StatusHangup s1" by (simp add: onMethod_def)
      with reply_wire(1) [OF Continue] show ?thesis by (auto simp: transition_def)
    next
      case (Stop s1)
      with assms bye have "s' = s1" by (simp add: onMethod_def)
      with reply_wire(2) [OF Stop] show ?thesis by simp
    qed
  next
    case opt
    with assms have "final (reply m env msg sip_StatusOK s) = Some s'"
      by (simp add: onMethod_def)
    from reply_final_wire [OF this] show ?thesis by auto
  next
    case inv
    with assms have "final (sendResponse m env (NewResponse m msg sip_StatusOK)
          (checkSDP msg (s \<lparr> remote := Some msg \<rparr>))) = Some s'"
      by (simp add: onMethod_def)
    from sendResponse_wire [OF this] show ?thesis by auto
  next
    case ack
    with assms show ?thesis by (auto simp: onMethod_def)
  next
    case other
    with assms have "final (reply m env msg sip_StatusMethodNotAllowed s) = Some s'"
      by (simp add: onMethod_def)
    from reply_final_wire [OF this] show ?thesis by auto
  qed
qed

lemma handleRequest_last_hop_sent:
  assumes "MaxForwards msg \<le> 0" "replySent m env msg sip_StatusTooManyHops s"
  shows "\<exists>s' d r. handleRequest m env msg s = Stop s' \<and>
           s' = s \<lparr> world := world s', errChan := errChan s @ [ErrRemoteLoop] \<rparr> \<and>
           wire (world s') = wire (world s) @ [(d, r)] \<and> Status r = sip_StatusTooManyHops"
proof -
  from assms(2) obtain s1 where c: "reply m env msg sip_StatusTooManyHops s = Continue s1"
    by (auto simp: replySent_iff)
  then have "final (reply m env msg sip_StatusTooManyHops s) = Some s1" by simp
  then have u: "s1 = s \<lparr> world := world s1 \<rparr>" by (rule reply_unchanged)
  from reply_wire(1) [OF c] obtain d r
    where w: "wire (world s1) = wire (world s) @ [(d, r)]" "Status r = sip_StatusTooManyHops"
    by auto
  have h: "handleRequest m env msg s = Stop (errSend ErrRemoteLoop s1)"
    using assms(1) c by (simp add: handleRequest_def)
  have e: "errSend ErrRemoteLoop s1 =
      s \<lparr> world := world (errSend ErrRemoteLoop s1), errChan := errChan s @ [ErrRemoteLoop] \<rparr>"
    by (subst u) (simp add: errSend_def)
  have "wire (world (errSend ErrRemoteLoop s1)) = wire (world s) @ [(d, r)]"
    using w by (simp add: errSend_def)
  with h e w(2) show ?thesis by blast
qed

lemma handleRequest_last_hop_unsent:
  assumes "MaxForwards msg \<le> 0" "\<not> replySent m env msg sip_StatusTooManyHops s"
  shows "handleRequest m env msg s = reply m env msg sip_StatusTooManyHops s"
    and "final (handleRequest m env msg s) = Some s' \<Longrightarrow>
           s' = s \<lparr> world := world s' \<rparr> \<and> wire (world s') = wire (world s)"
proof -
  show h: "handleRequest m env msg s = reply m env msg sip_StatusTooManyHops s"
    using assms
    by (cases "reply m env msg sip_StatusTooManyHops s")
      (simp_all add: handleRequest_def replySent_def)
  assume "final (handleRequest m env msg s) = Some s'"
  with h have f: "final (reply m env msg sip_StatusTooManyHops s) = Some s'" by simp
  from reply_not_sent [OF assms(2) f] have "wire (world s') = wire (world s)"
    by (rule reply_wire)
  with reply_unchanged [OF f] show "s' = s \<lparr> world := world s' \<rparr> \<and> wire (world s') = wire (world s)"
    by simp
qed

text \<open>
  C3 (as the code has it), for a dialog with \<open>rSeq > 0\<close>. The hop count of the request is
  tested before its CSeq. A request with Max-Forwards 0 or less is answered 483: when
  that reply is sent, the remote-loop error goes to the error channel and the method
  returns false; when it cannot be sent, nothing is written and nothing is reported;
  either way \<open>rSeq\<close> and every other field of the dialog stay as they were (\<open>world\<close> is
  the socket). A request with a positive Max-Forwards and a CSeq below \<open>rSeq\<close> is answered
  500: when the method returns true, one datagram, a response with status 500, has been
  added to the wire; when it returns false, because \<open>Send\<close> failed, nothing has been;
  either way no field of the dialog has changed. A request with a positive Max-Forwards
  and a CSeq equal to or above \<open>rSeq\<close> goes to the switch on its method with \<open>rSeq\<close> set to
  its CSeq, \<open>rSeq\<close> is that CSeq when the method returns, and what is written, if
  anything, is one response with status 200 or 405.
\<close>

theorem handleRequest_rSeq:
  "0 < rSeq s \<Longrightarrow>
   (MaxForwards msg \<le> 0 \<and> replySent m env msg sip_StatusTooManyHops s \<longrightarrow>
      (\<exists>s' d r. handleRequest m env msg s = Stop s' \<and>
           s' = s \<lparr> world := world s', errChan := errChan s @ [ErrRemoteLoop] \<rparr> \<and>
           wire (world s') = wire (world s) @ [(d, r)] \<and> Status r = sip_StatusTooManyHops)) \<and>
   (MaxForwards msg \<le> 0 \<and> \<not> replySent m env msg sip_StatusTooManyHops s \<longrightarrow>
      handleRequest m env msg s = reply m env msg sip_StatusTooManyHops s \<and>
      (\<forall>s'. final (handleRequest m env msg s) = Some s' \<longrightarrow>
          s' = s \<lparr> world := world s' \<rparr> \<and> wire (world s') = wire (world s))) \<and>
   (0 < MaxForwards msg \<and> CSeq msg < rSeq s \<longrightarrow>
      handleRequest m env msg s = reply m env msg sip_StatusInternalServerError s \<and>
      (\<forall>s'. handleRequest m env msg s = Continue s' \<longrightarrow>
          s' = s \<lparr> world := world s' \<rparr> \<and>
          (\<exists>d r. wire (world s') = wire (world s) @ [(d, r)] \<and>
                 Status r = sip_StatusInternalServerError)) \<and>
      (\<forall>s'. handleRequest m env msg s = Stop s' \<longrightarrow>
          s' = s \<lparr> world := world s' \<rparr> \<and> wire (world s') = wire (world s))) \<and>
   (0 < MaxForwards msg \<and> rSeq s \<le> CSeq msg \<longrightarrow>
      handleRequest m env msg s = onMethod m env msg (s \<lparr> rSeq := CSeq msg \<rparr>) \<and>
      (\<forall>s'. final (handleRequest m env msg s) = Some s' \<longrightarrow>
          rSeq s' = CSeq msg \<and>
          (wire (world s') = wire (world s) \<or>
           (\<exists>d r. wire (world s') = wire (world s) @ [(d, r)] \<and>
                  (Status r = sip_StatusOK \<or> Status r = sip_StatusMethodNotAllowed)))))"
proof (intro conjI impI allI)
  assume r: "0 < rSeq s"
  { assume "MaxForwards msg \<le> 0 \<and> replySent m env msg sip_StatusTooManyHops s"
    then show "\<exists>s' d r. handleRequest m env msg s = Stop s' \<and>
           s' = s \<lparr> world := world s', errChan := errChan s @ [ErrRemoteLoop] \<rparr> \<and>
           wire (world s') = wire (world s) @ [(d, r)] \<and> Status r = sip_StatusTooManyHops"
      by (intro handleRequest_last_hop_sent) simp_all
  }
  { assume a: "MaxForwards msg \<le> 0 \<and> \<not> replySent m env msg sip_StatusTooManyHops s"
    then show "handleRequest m env msg s = reply m env msg sip_StatusTooManyHops s"
      by (intro handleRequest_last_hop_unsent(1)) simp_all
    fix s' assume f: "final (handleRequest m env msg s) = Some s'"
    from a have "s' = s \<lparr> world := world s' \<rparr> \<and> wire (world s') = wire (world s)"
      by (intro handleRequest_last_hop_unsent(2) [OF _ _ f]) simp_all
    then show "s' = s \<lparr> world := world s' \<rparr>" "wire (world s') = wire (world s)"
      by simp_all
  }
  { assume a: "0 < MaxForwards msg \<and> CSeq msg < rSeq s"
    with r show h: "handleRequest m env msg s = reply m env msg sip_StatusInternalServerError s"
      by (simp add: handleRequest_def)
    fix s'
    { assume "handleRequest m env msg s = Continue s'"
      with h have c: "reply m env msg sip_StatusInternalServerError s = Continue s'" by simp
      then have "final (reply m env msg sip_StatusInternalServerError s) = Some s'" by simp
      then show "s' = s \<lparr> world := world s' \<rparr>" by (rule reply_unchanged)
      from c show "\<exists>d r. wire (world s') = wire (world s) @ [(d, r)] \<and>
                 Status r = sip_StatusInternalServerError" by (rule reply_wire)
    }
    { assume "handleRequest m env msg s = Stop s'"
      with h have c: "reply m env msg sip_StatusInternalServerError s = Stop s'" by simp
      then have "final (reply m env msg sip_StatusInternalServerError s) = Some s'" by simp
      then show "s' = s \<lparr> world := world s' \<rparr>" by (rule reply_unchanged)
      from c show "wire (world s') = wire (world s)" by (rule reply_wire)
    }
  }
  { assume a: "0 < MaxForwards msg \<and> rSeq s \<le> CSeq msg"
    with r show h: "handleRequest m env msg s = onMethod m env msg (s \<lparr> rSeq := CSeq msg \<rparr>)"
      by (simp add: handleRequest_def)
    fix s' assume "final (handleRequest m env msg s) = Some s'"
    with h have f: "final (onMethod m env msg (s \<lparr> rSeq := CSeq msg \<rparr>)) = Some s'" by simp
    from onMethod_rSeq [OF f] show "rSeq s' = CSeq msg" by simp
    from onMethod_wire [OF f]
    show "wire (world s') = wire (world s) \<or>
           (\<exists>d r. wire (world s') = wire (world s) @ [(d, r)] \<and>
                  (Status r = sip_StatusOK \<or> Status r = sip_StatusMethodNotAllowed))"
      by simp
  }
qed

lemma established_facts:
  "rSeq (dls established) = 5"
  "replySent mgr_proxy env0 options_3_last_hop sip_StatusTooManyHops (dls established)"
  by (simp_all add: established_def replySent_def dialog_eval send_eval dialog_inputs
      options_5_def options_3_last_hop_def)

theorem handleRequest_rSeq_witness:
  "0 < rSeq (dls established) \<and>
   0 < MaxForwards options_3 \<and> CSeq options_3 < rSeq (dls established) \<and>
   handleRequest mgr_proxy env0 options_3 (dls established) =
     reply mgr_proxy env0 options_3 sip_StatusInternalServerError (dls established) \<and>
   0 < MaxForwards options_9 \<and> rSeq (dls established) \<le> CSeq options_9 \<and>
   handleRequest mgr_proxy env0 options_9 (dls established) =
     onMethod mgr_proxy env0 options_9 ((dls established) \<lparr> rSeq := CSeq options_9 \<rparr>) \<and>
   MaxForwards options_3_last_hop \<le> 0 \<and>
   replySent mgr_proxy env0 options_3_last_hop sip_StatusTooManyHops (dls established) \<and>
   (\<exists>s' d r. handleRequest mgr_proxy env0 options_3_last_hop (dls established) = Stop s' \<and>
      s' = (dls established) \<lparr> world := world s',
             errChan := errChan (dls established) @ [ErrRemoteLoop] \<rparr> \<and>
      wire (world s') = wire (world (dls established)) @ [(d, r)] \<and>
      Status r = sip_StatusTooManyHops)"
  using handleRequest_rSeq [of "dls established" options_3 mgr_proxy env0]
    handleRequest_rSeq [of "dls established" options_9 mgr_proxy env0]
    handleRequest_rSeq [of "dls established" options_3_last_hop mgr_proxy env0]
    established_facts
  by (simp add: options_3_def options_9_def options_5_def options_3_last_hop_def)

theorem handleRequest_rSeq_counterexample:
  "alive established \<and> rSeq (dls established) = 5 \<and>
   CSeq options_3_last_hop = 3 \<and>
   Status (snd (last (wire (world (dls
     (step mgr_proxy env0 (Incoming options_3_last_hop) established)))))) = 483 \<and>
   CSeq options_9_last_hop = 9 \<and>
   rSeq (dls (step mgr_proxy env0 (Incoming options_9_last_hop) established)) = 5"
  by (simp add: established_def dialog_eval send_eval dialog_inputs options_5_def
      options_3_last_hop_def options_9_last_hop_def)

section \<open>Resending the request\<close>



lemma rerouted_refl [simp]: "rerouted s s"
  by (simp add: rerouted_def)

lemma rerouted_trans:
  "rerouted s s1 \<Longrightarrow> rerouted s1 s2 \<Longrightarrow> rerouted s s2"
  by (auto simp: rerouted_def)

lemma rerouted_cong:
  "requestResends t = requestResends s \<Longrightarrow> sentOnRoute t = sentOnRoute s \<Longrightarrow>
   rerouted t s' = rerouted s s'"
  by (simp add: rerouted_def)




lemma reply_rerouted:
  "final (reply m env msg st s) = Some s' \<Longrightarrow> rerouted s s'"
  by (auto simp: reply_cases rerouted_def split: option.splits SendError.splits)






lemma checkSDP_counters [simp]:
  "requestResends (checkSDP msg s) = requestResends s"
  "sentOnRoute (checkSDP msg s) = sentOnRoute s"
  by (simp_all add: checkSDP_def split: Payload.splits)

lemma transition_counters [simp]:
  "requestResends (transition st s) = requestResends s"
  "sentOnRoute (transition st s) = sentOnRoute s"
  by (simp_all add: transition_def)

lemma errSend_counters [simp]:
  "requestResends (errSend e s) = requestResends s"
  "sentOnRoute (errSend e s) = sentOnRoute s"
  by (simp_all add: errSend_def)














lemma putRequest_wire [simp]: "wire (world (putRequest r s)) = wire (world s)"
  by simp






lemma putRequest_route [simp]:
  "routes (putRequest r s) = routes s" "addr (putRequest r s) = addr s"
  by (simp_all add: putRequest_def split: option.splits ReqRef.splits)








text \<open>The bound is reached with the default \<open>maxResends = 2\<close>: three datagrams on the one
  route, and the fourth timer ends the dialog without a send.\<close>

lemma default_three_sends:
  "sentOnRoute (dls (run mgr_proxy env0 [Start, RequestTimer, RequestTimer]
      (NewDialog mgr_proxy env0 world0 invite_a))) = 3 \<and>
   length (wire (world (dls (run mgr_proxy env0 [Start, RequestTimer, RequestTimer]
      (NewDialog mgr_proxy env0 world0 invite_a))))) = 3 \<and>
   \<not> alive (run mgr_proxy env0 [Start, RequestTimer, RequestTimer, RequestTimer]
      (NewDialog mgr_proxy env0 world0 invite_a)) \<and>
   length (wire (world (dls (run mgr_proxy env0 [Start, RequestTimer, RequestTimer, RequestTimer]
      (NewDialog mgr_proxy env0 world0 invite_a))))) = 3"
  by (simp add: dialog_eval send_eval dialog_inputs)

end
